theory Spec2Isabelle
  imports Complex_Main "HOL-Library.Sublist"
begin

section \<open>JavaScript strings\<close>

text \<open>
  A JavaScript string is a sequence of UTF-16 code units.  A code unit is modelled by its
  number, so that the character classes of the regular expressions (\<^verbatim>\<open>\s\<close>, \<^verbatim>\<open>.\<close>, \<^verbatim>\<open>\d\<close>)
  are exactly the ECMAScript ones, including the members beyond ASCII.  \<open>js\<close> turns an
  ASCII literal into such a string.
\<close>

type_synonym code_unit = nat
type_synonym jsstring = "code_unit list"

definition js :: "string \<Rightarrow> jsstring" where
  "js s = map of_char s"

abbreviation dquote :: code_unit where "dquote \<equiv> 34"
abbreviation dollar :: code_unit where "dollar \<equiv> 36"
abbreviation ampersand :: code_unit where "ampersand \<equiv> 38"
abbreviation squote :: code_unit where "squote \<equiv> 39"
abbreviation star :: code_unit where "star \<equiv> 42"
abbreviation comma :: code_unit where "comma \<equiv> 44"
abbreviation dash :: code_unit where "dash \<equiv> 45"
abbreviation slash :: code_unit where "slash \<equiv> 47"
abbreviation colon :: code_unit where "colon \<equiv> 58"
abbreviation at_sign :: code_unit where "at_sign \<equiv> 64"
abbreviation lbracket :: code_unit where "lbracket \<equiv> 91"
abbreviation bslash :: code_unit where "bslash \<equiv> 92"
abbreviation rbracket :: code_unit where "rbracket \<equiv> 93"
abbreviation backtick :: code_unit where "backtick \<equiv> 96"
abbreviation rbrace :: code_unit where "rbrace \<equiv> 125"

text \<open>
  \<^verbatim>\<open>.\<close> matches every code unit that is not a line terminator (LF, CR, U+2028, U+2029);
  \<^verbatim>\<open>\s\<close> matches the ECMAScript white space and line terminators; \<^verbatim>\<open>\d\<close> matches the ten
  ASCII digits.
\<close>

definition line_terminator :: "code_unit \<Rightarrow> bool" where
  "line_terminator c \<longleftrightarrow> c = 10 \<or> c = 13 \<or> c = 8232 \<or> c = 8233"

definition white_space :: "code_unit \<Rightarrow> bool" where
  "white_space c \<longleftrightarrow>
     (9 \<le> c \<and> c \<le> 13) \<or> c = 32 \<or> c = 160 \<or> c = 5760 \<or> (8192 \<le> c \<and> c \<le> 8202) \<or>
     c = 8232 \<or> c = 8233 \<or> c = 8239 \<or> c = 8287 \<or> c = 12288 \<or> c = 65279"

definition digit :: "code_unit \<Rightarrow> bool" where
  "digit c \<longleftrightarrow> 48 \<le> c \<and> c \<le> 57"

text \<open>A value used as a condition: \<^verbatim>\<open>undefined\<close>, \<^verbatim>\<open>null\<close> and the empty string are falsy.\<close>

definition truthy :: "jsstring option \<Rightarrow> bool" where
  "truthy v = (case v of None \<Rightarrow> False | Some s \<Rightarrow> s \<noteq> [])"

section \<open>Regular expressions as matchers\<close>

text \<open>
  None of the regular expressions of the program looks behind the position it is tried at,
  so one is modelled by a matcher: a function from the rest of the subject at a position to
  the matched text and the capture groups, or \<open>None\<close> when there is no match at that
  position.  \<open>replace_global\<close> is \<^verbatim>\<open>String.prototype.replace\<close> with a \<^verbatim>\<open>g\<close> pattern and a
  callback: the matcher is tried at each position from the left; a match is replaced by
  the callback's result and the scan goes on behind it; where nothing matches, the code
  unit is copied.  After an empty match the scan advances by one code unit.
\<close>

fun replace_global ::
  "(jsstring \<Rightarrow> (jsstring \<times> 'g) option) \<Rightarrow> (jsstring \<Rightarrow> 'g \<Rightarrow> jsstring) \<Rightarrow> jsstring \<Rightarrow> jsstring"
where
  "replace_global rx f [] = (case rx [] of None \<Rightarrow> [] | Some (m, g) \<Rightarrow> f m g)"
| "replace_global rx f (c # cs) =
     (case rx (c # cs) of
        None \<Rightarrow> c # replace_global rx f cs
      | Some (m, g) \<Rightarrow>
          f m g @ (if m = [] then c # replace_global rx f cs
                   else replace_global rx f (drop (length m - 1) cs)))"

text \<open>
  \<open>search\<close> is a pattern without \<^verbatim>\<open>g\<close> used by \<^verbatim>\<open>match\<close>, \<^verbatim>\<open>test\<close> and \<^verbatim>\<open>replace\<close>: the
  leftmost position with a match, and the matched text.
\<close>

fun search :: "(jsstring \<Rightarrow> jsstring option) \<Rightarrow> jsstring \<Rightarrow> (nat \<times> jsstring) option" where
  "search rx [] = (case rx [] of None \<Rightarrow> None | Some m \<Rightarrow> Some (0, m))"
| "search rx (c # cs) =
     (case rx (c # cs) of
        Some m \<Rightarrow> Some (0, m)
      | None \<Rightarrow> (case search rx cs of None \<Rightarrow> None | Some (i, m) \<Rightarrow> Some (Suc i, m)))"

section \<open>stripJsonComments (src/cli/config-manager.ts)\<close>

text \<open>
  The first alternative of both patterns, \<^verbatim>\<open>\\"\<close>: a backslash and a double quote.
\<close>

definition escaped_quote :: "jsstring \<Rightarrow> jsstring option" where
  "escaped_quote s =
     (case s of c # d # _ \<Rightarrow> if c = bslash \<and> d = dquote then Some [c, d] else None
      | _ \<Rightarrow> None)"

text \<open>
  The second alternative, \<^verbatim>\<open>"(?:\\"|[^"])*"\<close>.  \<open>string_tail\<close> is the part behind the opening
  quote and returns what follows the closing quote.  It tries what the backtracking matcher
  tries, in its order: one more round of the group with \<^verbatim>\<open>\\"\<close>, one more round with
  \<^verbatim>\<open>[^"]\<close>, and only when both have failed the end of the repetition and the closing quote.
\<close>

fun string_tail :: "jsstring \<Rightarrow> jsstring option" where
  "string_tail [] = None"
| "string_tail (c # cs) =
     (case (if c = bslash
            then (case cs of d # ds \<Rightarrow> if d = dquote then string_tail ds else None
                  | [] \<Rightarrow> None)
            else None) of
        Some r \<Rightarrow> Some r
      | None \<Rightarrow>
          (case (if c \<noteq> dquote then string_tail cs else None) of
             Some r \<Rightarrow> Some r
           | None \<Rightarrow> if c = dquote then Some cs else None))"

definition quoted_string :: "jsstring \<Rightarrow> jsstring option" where
  "quoted_string s =
     (case s of
        c # cs \<Rightarrow>
          if c = dquote
          then (case string_tail cs of
                  Some r \<Rightarrow> Some (take (length s - length r) s)
                | None \<Rightarrow> None)
          else None
      | [] \<Rightarrow> None)"

text \<open>
  The capture group of the comment pattern, \<^verbatim>\<open>(\/\/.*|\/\*[\s\S]*?\*\/)\<close>.  \<open>block_tail\<close> is
  the lazy \<^verbatim>\<open>[\s\S]*?\*\/\<close>: the text up to the first \<^verbatim>\<open>*/\<close>, with it.
\<close>

fun block_tail :: "jsstring \<Rightarrow> jsstring option" where
  "block_tail (c # d # ds) =
     (if c = star \<and> d = slash then Some [c, d]
      else (case block_tail (d # ds) of None \<Rightarrow> None | Some m \<Rightarrow> Some (c # m)))"
| "block_tail _ = None"

definition comment :: "jsstring \<Rightarrow> jsstring option" where
  "comment s =
     (case s of
        c # d # ds \<Rightarrow>
          if c = slash \<and> d = slash then Some (c # d # takeWhile (\<lambda>x. \<not> line_terminator x) ds)
          else if c = slash \<and> d = star
          then (case block_tail ds of None \<Rightarrow> None | Some m \<Rightarrow> Some (c # d # m))
          else None
      | _ \<Rightarrow> None)"

text \<open>\<^verbatim>\<open>/\\"|"(?:\\"|[^"])*"|(\/\/.*|\/\*[\s\S]*?\*\/)/g\<close>, with its one capture group.\<close>

definition commentPattern :: "jsstring \<Rightarrow> (jsstring \<times> jsstring option) option" where
  "commentPattern s =
     (case escaped_quote s of
        Some m \<Rightarrow> Some (m, None)
      | None \<Rightarrow>
          (case quoted_string s of
             Some m \<Rightarrow> Some (m, None)
           | None \<Rightarrow> (case comment s of Some m \<Rightarrow> Some (m, Some m) | None \<Rightarrow> None)))"

text \<open>
  The last alternative of the trailing comma pattern, \<^verbatim>\<open>(,)(\s*[}\]])\<close>, with its two
  groups.  A closing brace or bracket is no white space, so the greedy \<^verbatim>\<open>\s*\<close> has one way
  to match only.
\<close>

definition comma_closer :: "jsstring \<Rightarrow> (jsstring \<times> jsstring) option" where
  "comma_closer s =
     (case s of
        c # cs \<Rightarrow>
          if c = comma
          then (case dropWhile white_space cs of
                  d # _ \<Rightarrow>
                    if d = rbrace \<or> d = rbracket
                    then Some ([c], takeWhile white_space cs @ [d])
                    else None
                | [] \<Rightarrow> None)
          else None
      | [] \<Rightarrow> None)"

text \<open>\<^verbatim>\<open>/\\"|"(?:\\"|[^"])*"|(,)(\s*[}\]])/g\<close>, with its two capture groups.\<close>

definition trailingCommaPattern ::
  "jsstring \<Rightarrow> (jsstring \<times> jsstring option \<times> jsstring option) option"
where
  "trailingCommaPattern s =
     (case escaped_quote s of
        Some m \<Rightarrow> Some (m, None, None)
      | None \<Rightarrow>
          (case quoted_string s of
             Some m \<Rightarrow> Some (m, None, None)
           | None \<Rightarrow>
               (case comma_closer s of
                  Some (g1, g2) \<Rightarrow> Some (g1 @ g2, Some g1, Some g2)
                | None \<Rightarrow> None)))"

text \<open>
  The two callbacks.  A callback's result is converted to a string, so an undefined
  \<^verbatim>\<open>closing\<close> would read \<^verbatim>\<open>undefined\<close>; the pattern never leaves it undefined beside a comma.
\<close>

definition keep_unless_comment :: "jsstring \<Rightarrow> jsstring option \<Rightarrow> jsstring" where
  "keep_unless_comment m commentGroup = (if truthy commentGroup then [] else m)"

definition drop_comma :: "jsstring \<Rightarrow> jsstring option \<times> jsstring option \<Rightarrow> jsstring" where
  "drop_comma m g =
     (case g of
        (comma_group, closing) \<Rightarrow>
          if truthy comma_group
          then (case closing of Some cl \<Rightarrow> cl | None \<Rightarrow> js ''undefined'')
          else m)"

definition stripJsonComments :: "jsstring \<Rightarrow> jsstring" where
  "stripJsonComments json =
     replace_global trailingCommaPattern drop_comma
       (replace_global commentPattern keep_unless_comment json)"

section \<open>UTF-8\<close>

text \<open>
  \<^verbatim>\<open>readFileSync(path, "utf-8")\<close> decodes the bytes of a file to a string, and
  \<^verbatim>\<open>writeFileSync(path, text)\<close> encodes a string to bytes.  A byte is modelled by its number.

  The decoder never fails: a byte or a truncated sequence that is not UTF-8 is replaced by
  U+FFFD, one replacement for each maximal part of a sequence that could still have been
  completed, and decoding goes on at the byte that did not fit.  The second byte of a
  sequence of three or four is restricted so that overlong forms, surrogates and code
  points beyond U+10FFFF are no sequences.  A byte order mark is decoded as any other
  character.  A code point beyond U+FFFF becomes a pair of surrogates.
\<close>

type_synonym byte = nat

definition high_surrogate :: "code_unit \<Rightarrow> bool" where
  "high_surrogate c \<longleftrightarrow> 55296 \<le> c \<and> c \<le> 56319"

definition low_surrogate :: "code_unit \<Rightarrow> bool" where
  "low_surrogate c \<longleftrightarrow> 56320 \<le> c \<and> c \<le> 57343"

definition continuation :: "byte \<Rightarrow> bool" where
  "continuation c \<longleftrightarrow> 128 \<le> c \<and> c \<le> 191"

definition second_of_three :: "byte \<Rightarrow> byte \<Rightarrow> bool" where
  "second_of_three b c \<longleftrightarrow>
     (if b = 224 then 160 \<le> c \<and> c \<le> 191
      else if b = 237 then 128 \<le> c \<and> c \<le> 159
      else continuation c)"

definition second_of_four :: "byte \<Rightarrow> byte \<Rightarrow> bool" where
  "second_of_four b c \<longleftrightarrow>
     (if b = 240 then 144 \<le> c \<and> c \<le> 191
      else if b = 244 then 128 \<le> c \<and> c \<le> 143
      else continuation c)"

definition unit2 :: "byte \<Rightarrow> byte \<Rightarrow> code_unit" where
  "unit2 b c = (b - 192) * 64 + (c - 128)"

definition unit3 :: "byte \<Rightarrow> byte \<Rightarrow> byte \<Rightarrow> code_unit" where
  "unit3 b c d = (b - 224) * 4096 + (c - 128) * 64 + (d - 128)"

definition point4 :: "byte \<Rightarrow> byte \<Rightarrow> byte \<Rightarrow> byte \<Rightarrow> nat" where
  "point4 b c d e = (b - 240) * 262144 + (c - 128) * 4096 + (d - 128) * 64 + (e - 128)"

definition surrogate_pair :: "nat \<Rightarrow> jsstring" where
  "surrogate_pair cp = [55296 + (cp - 65536) div 1024, 56320 + (cp - 65536) mod 1024]"

abbreviation replacement_character :: code_unit where "replacement_character \<equiv> 65533"

fun utf8_decode :: "byte list \<Rightarrow> jsstring" where
  "utf8_decode [] = []"
| "utf8_decode (b # bs) =
     (if b < 128 then b # utf8_decode bs
      else if 194 \<le> b \<and> b \<le> 223
      then (case bs of
              c # cs \<Rightarrow>
                if continuation c then unit2 b c # utf8_decode cs
                else replacement_character # utf8_decode bs
            | [] \<Rightarrow> [replacement_character])
      else if 224 \<le> b \<and> b \<le> 239
      then (case bs of
              c # cs \<Rightarrow>
                if second_of_three b c
                then (case cs of
                        d # ds \<Rightarrow>
                          if continuation d then unit3 b c d # utf8_decode ds
                          else replacement_character # utf8_decode cs
                      | [] \<Rightarrow> [replacement_character])
                else replacement_character # utf8_decode bs
            | [] \<Rightarrow> [replacement_character])
      else if 240 \<le> b \<and> b \<le> 244
      then (case bs of
              c # cs \<Rightarrow>
                if second_of_four b c
                then (case cs of
                        d # ds \<Rightarrow>
                          if continuation d
                          then (case ds of
                                  e # es \<Rightarrow>
                                    if continuation e
                                    then surrogate_pair (point4 b c d e) @ utf8_decode es
                                    else replacement_character # utf8_decode ds
                                | [] \<Rightarrow> [replacement_character])
                          else replacement_character # utf8_decode cs
                      | [] \<Rightarrow> [replacement_character])
                else replacement_character # utf8_decode bs
            | [] \<Rightarrow> [replacement_character])
      else replacement_character # utf8_decode bs)"

text \<open>
  The encoder: a pair of surrogates is one code point of four bytes, and a surrogate
  without its partner is written as U+FFFD.
\<close>

definition encode_unit :: "code_unit \<Rightarrow> byte list" where
  "encode_unit c =
     (if c < 128 then [c]
      else if c < 2048 then [192 + c div 64, 128 + c mod 64]
      else [224 + c div 4096, 128 + (c div 64) mod 64, 128 + c mod 64])"

definition encode_point4 :: "nat \<Rightarrow> byte list" where
  "encode_point4 cp =
     [240 + cp div 262144, 128 + (cp div 4096) mod 64, 128 + (cp div 64) mod 64, 128 + cp mod 64]"

fun utf8_encode :: "jsstring \<Rightarrow> byte list" where
  "utf8_encode [] = []"
| "utf8_encode (c # cs) =
     (if high_surrogate c
      then (case cs of
              d # ds \<Rightarrow>
                if low_surrogate d
                then encode_point4 (65536 + (c - 55296) * 1024 + (d - 56320)) @ utf8_encode ds
                else encode_unit replacement_character @ utf8_encode cs
            | [] \<Rightarrow> encode_unit replacement_character)
      else if low_surrogate c then encode_unit replacement_character @ utf8_encode cs
      else encode_unit c @ utf8_encode cs)"

section \<open>The file system\<close>

text \<open>
  What the program sees of the file system: a path names a regular file with its bytes, a
  directory, or nothing.  Creating or writing under a path in \<open>denied\<close> throws.  An
  operation that throws returns \<open>None\<close>; every caller below catches it.  Reading is
  \<^verbatim>\<open>readFileSync(path, "utf-8")\<close> and decodes; writing a string encodes it.
\<close>

type_synonym path = jsstring

datatype node = File "byte list" | Directory

record filesystem =
  nodes :: "path \<Rightarrow> node option"
  denied :: "path set"

definition existsSync :: "filesystem \<Rightarrow> path \<Rightarrow> bool" where
  "existsSync fs p \<longleftrightarrow> nodes fs p \<noteq> None"

definition readFileSync :: "filesystem \<Rightarrow> path \<Rightarrow> jsstring option" where
  "readFileSync fs p =
     (case nodes fs p of Some (File bytes) \<Rightarrow> Some (utf8_decode bytes) | _ \<Rightarrow> None)"

definition writeFileSync :: "filesystem \<Rightarrow> path \<Rightarrow> jsstring \<Rightarrow> filesystem option" where
  "writeFileSync fs p content =
     (if p \<in> denied fs \<or> nodes fs p = Some Directory then None
      else Some (fs\<lparr>nodes := (nodes fs)(p \<mapsto> File (utf8_encode content))\<rparr>))"

definition mkdirSync :: "filesystem \<Rightarrow> path \<Rightarrow> filesystem option" where
  "mkdirSync fs p =
     (if p \<in> denied fs then None
      else case nodes fs p of
             Some (File _) \<Rightarrow> None
           | _ \<Rightarrow> Some (fs\<lparr>nodes := (nodes fs)(p \<mapsto> Directory)\<rparr>))"

section \<open>updatePinnedVersion (src/hooks/auto-update-checker/checker.ts)\<close>

text \<open>
  \<^verbatim>\<open>checker.ts\<close> imports its constants from \<^verbatim>\<open>./constants\<close>; the functions below take
  their values as a parameter.
\<close>

record constants =
  C_PACKAGE_NAME :: jsstring
  C_USER_OPENCODE_CONFIG :: path
  C_USER_OPENCODE_CONFIG_JSONC :: path
  C_USER_CONFIG_DIR :: path

text \<open>\<^verbatim>\<open>s.slice(a, b)\<close> for indices that are not negative.\<close>

definition slice :: "jsstring \<Rightarrow> nat \<Rightarrow> nat \<Rightarrow> jsstring" where
  "slice s a b = take (b - a) (drop a s)"

text \<open>
  \<^verbatim>\<open>/"plugin"\s*:\s*\[/\<close>.  Neither a colon nor a bracket is white space, so each greedy
  \<^verbatim>\<open>\s*\<close> has one way to match only.
\<close>

definition pluginPattern :: "jsstring \<Rightarrow> jsstring option" where
  "pluginPattern s =
     (let key = js ''\"plugin\"'' in
      if prefix key s
      then (let r1 = drop (length key) s in
            case dropWhile white_space r1 of
              c # r2 \<Rightarrow>
                if c = colon
                then (case dropWhile white_space r2 of
                        d # _ \<Rightarrow>
                          if d = lbracket
                          then Some (key @ takeWhile white_space r1 @ [c] @
                                     takeWhile white_space r2 @ [d])
                          else None
                      | [] \<Rightarrow> None)
                else None
            | [] \<Rightarrow> None)
      else None)"

text \<open>
  The loop of lines 200 to 204, with \<open>i\<close>, \<open>bracketCount\<close> and \<open>endIdx\<close> as it leaves
  them after each round; the result is the final \<open>endIdx\<close>.
\<close>

function bracket_scan :: "jsstring \<Rightarrow> nat \<Rightarrow> nat \<Rightarrow> nat \<Rightarrow> nat" where
  "bracket_scan content i bracketCount endIdx =
     (if i < length content \<and> bracketCount > 0
      then bracket_scan content (i + 1)
             (if content ! i = lbracket then bracketCount + 1
              else if content ! i = rbracket then bracketCount - 1
              else bracketCount)
             i
      else endIdx)"
  by pat_completeness auto
termination
  by (relation "measure (\<lambda>(content, i, bracketCount, endIdx). length content - i)") auto

declare bracket_scan.simps [simp del]

text \<open>
  Lines 190 to 204: the index behind the opening bracket of the first \<^verbatim>\<open>"plugin": [\<close>, and
  the index the loop ends at.
\<close>

definition locate :: "jsstring \<Rightarrow> (nat \<times> nat) option" where
  "locate content =
     (case search pluginPattern content of
        None \<Rightarrow> None
      | Some (index, m) \<Rightarrow>
          (let startIdx = index + length m
           in Some (startIdx, bracket_scan content startIdx 1 startIdx)))"

text \<open>
  Lines 210 and 211.  Each character that the pattern syntax treats specially
  (\<^verbatim>\<open>. * + ? ^ $ { } ( ) | [ ] \\<close>) is escaped with a backslash before the pattern is
  built, so the pattern matches the old entry code unit by code unit, between two quote
  characters; each of the two is a single or a double quote, whatever the other is.
\<close>

definition is_quote :: "code_unit \<Rightarrow> bool" where
  "is_quote c \<longleftrightarrow> c = dquote \<or> c = squote"

definition entryPattern :: "jsstring \<Rightarrow> jsstring \<Rightarrow> jsstring option" where
  "entryPattern oldEntry s =
     (case s of
        q # r \<Rightarrow>
          if is_quote q \<and> prefix oldEntry r
          then (case drop (length oldEntry) r of
                  q' # _ \<Rightarrow> if is_quote q' then Some (q # oldEntry @ [q']) else None
                | [] \<Rightarrow> None)
          else None
      | [] \<Rightarrow> None)"

text \<open>
  The replacement text of \<^verbatim>\<open>replace\<close> with a string: \<^verbatim>\<open>$$\<close> is a dollar, \<^verbatim>\<open>$&\<close> the matched
  text, \<^verbatim>\<open>$`\<close> the subject before the match and \<^verbatim>\<open>$'\<close> the subject behind it.  The pattern
  has no capture group, so \<^verbatim>\<open>$1\<close> and the like stand for themselves, as every other
  dollar does.
\<close>

fun getSubstitution :: "jsstring \<Rightarrow> jsstring \<Rightarrow> jsstring \<Rightarrow> jsstring \<Rightarrow> jsstring" where
  "getSubstitution matched before after (c # d # t) =
     (if c = dollar \<and> d = dollar then dollar # getSubstitution matched before after t
      else if c = dollar \<and> d = ampersand then matched @ getSubstitution matched before after t
      else if c = dollar \<and> d = backtick then before @ getSubstitution matched before after t
      else if c = dollar \<and> d = squote then after @ getSubstitution matched before after t
      else c # getSubstitution matched before after (d # t))"
| "getSubstitution matched before after t = t"

text \<open>\<^verbatim>\<open>s.replace(regex, replacement)\<close> for a pattern without \<^verbatim>\<open>g\<close>: the first match only.\<close>

definition replace_first :: "(jsstring \<Rightarrow> jsstring option) \<Rightarrow> jsstring \<Rightarrow> jsstring \<Rightarrow> jsstring" where
  "replace_first rx replacement s =
     (case search rx s of
        None \<Rightarrow> s
      | Some (i, m) \<Rightarrow>
          (let before = take i s; after = drop (i + length m) s
           in before @ getSubstitution m before after replacement @ after))"

text \<open>
  Lines 188 to 224, the part of \<open>updatePinnedVersion\<close> between reading the file and writing
  it.  The first three outcomes are the three early returns, each with its log line.
\<close>

datatype patch_outcome = NoPluginArray | EntryNotFound | NoChanges | Updated jsstring

definition patch_content :: "constants \<Rightarrow> jsstring \<Rightarrow> jsstring \<Rightarrow> jsstring \<Rightarrow> patch_outcome" where
  "patch_content k content oldEntry newVersion =
     (let newEntry = C_PACKAGE_NAME k @ [at_sign] @ newVersion in
      case locate content of
        None \<Rightarrow> NoPluginArray
      | Some (startIdx, endIdx) \<Rightarrow>
          (let before = slice content 0 startIdx;
               pluginArrayContent = slice content startIdx endIdx;
               after = drop endIdx content;
               regex = entryPattern oldEntry
           in if search regex pluginArrayContent = None then EntryNotFound
              else (let updatedPluginArray =
                          replace_first regex ([dquote] @ newEntry @ [dquote]) pluginArrayContent;
                        updatedContent = before @ updatedPluginArray @ after
                    in if updatedContent = content then NoChanges
                       else Updated updatedContent)))"

text \<open>
  The function with its effects: the result and the file system it leaves.  Whatever is
  thrown while reading or writing is caught, and the result is then \<^verbatim>\<open>false\<close>.
\<close>

definition updatePinnedVersion ::
  "constants \<Rightarrow> filesystem \<Rightarrow> path \<Rightarrow> jsstring \<Rightarrow> jsstring \<Rightarrow> bool \<times> filesystem"
where
  "updatePinnedVersion k fs configPath oldEntry newVersion =
     (case readFileSync fs configPath of
        None \<Rightarrow> (False, fs)
      | Some content \<Rightarrow>
          (case patch_content k content oldEntry newVersion of
             Updated updatedContent \<Rightarrow>
               (case writeFileSync fs configPath updatedContent of
                  None \<Rightarrow> (False, fs)
                | Some fs' \<Rightarrow> (True, fs'))
           | _ \<Rightarrow> (False, fs)))"

section \<open>extractChannel (checker.ts)\<close>

definition isPrereleaseVersion :: "jsstring \<Rightarrow> bool" where
  "isPrereleaseVersion version \<longleftrightarrow> dash \<in> set version"

text \<open>\<^verbatim>\<open>!/^\d/.test(version)\<close>\<close>

definition isDistTag :: "jsstring \<Rightarrow> bool" where
  "isDistTag version \<longleftrightarrow> \<not> (case version of c # _ \<Rightarrow> digit c | [] \<Rightarrow> False)"

text \<open>\<^verbatim>\<open>s.split(sep)\<close> for a separator of one code unit, and \<^verbatim>\<open>xs[i]\<close>, undefined out of range.\<close>

fun split :: "code_unit \<Rightarrow> jsstring \<Rightarrow> jsstring list" where
  "split sep [] = [[]]"
| "split sep (c # cs) =
     (if c = sep then [] # split sep cs
      else (case split sep cs of x # xs \<Rightarrow> (c # x) # xs | [] \<Rightarrow> [[c]]))"

definition at_index :: "'a list \<Rightarrow> nat \<Rightarrow> 'a option" where
  "at_index xs i = (if i < length xs then Some (xs ! i) else None)"

text \<open>
  \<^verbatim>\<open>/^(alpha|beta|rc|canary|next)/\<close>, tried at the start of the text only: the group is the
  first alternative, in this order, that the text begins with.
\<close>

definition known_channels :: "jsstring list" where
  "known_channels = [js ''alpha'', js ''beta'', js ''rc'', js ''canary'', js ''next'']"

definition channelPattern :: "jsstring \<Rightarrow> jsstring option" where
  "channelPattern s = find (\<lambda>ch. prefix ch s) known_channels"

definition extractChannel :: "jsstring option \<Rightarrow> jsstring" where
  "extractChannel version =
     (if \<not> truthy version then js ''latest''
      else case version of
        None \<Rightarrow> js ''latest''
      | Some v \<Rightarrow>
          if isDistTag v then v
          else if isPrereleaseVersion v
          then (let prereleasePart = at_index (split dash v) 1 in
                if truthy prereleasePart
                then (case prereleasePart of
                        Some part \<Rightarrow>
                          (case channelPattern part of
                             Some channel \<Rightarrow> channel
                           | None \<Rightarrow> js ''latest'')
                      | None \<Rightarrow> js ''latest'')
                else js ''latest'')
          else js ''latest'')"

section \<open>JSON values\<close>

text \<open>
  What \<^verbatim>\<open>JSON.parse\<close> returns: \<^verbatim>\<open>null\<close>, a boolean, a number, a string, an array, or an
  object with its keys, which are distinct, in their order.  \<^verbatim>\<open>JSON.parse\<close> and
  \<^verbatim>\<open>JSON.stringify\<close> belong to the runtime and are parameters; \<open>None\<close> from the parser is a
  thrown syntax error.
\<close>

datatype json =
  JNull
| JBool bool
| JNum real
| JStr jsstring
| JArr "json list"
| JObj "(jsstring \<times> json) list"

type_synonym json_parse = "jsstring \<Rightarrow> json option"
type_synonym json_stringify = "json \<Rightarrow> jsstring"

text \<open>An expression returns a value or throws; every \<^verbatim>\<open>throw\<close> below is a \<^verbatim>\<open>TypeError\<close>.\<close>

datatype 'a outcome = Returns 'a | Throws

text \<open>A value used as a condition.\<close>

definition truthy_value :: "json \<Rightarrow> bool" where
  "truthy_value v =
     (case v of
        JNull \<Rightarrow> False
      | JBool b \<Rightarrow> b
      | JNum n \<Rightarrow> n \<noteq> 0
      | JStr s \<Rightarrow> s \<noteq> []
      | JArr _ \<Rightarrow> True
      | JObj _ \<Rightarrow> True)"

text \<open>
  \<^verbatim>\<open>config.plugin\<close>: reading a property of \<^verbatim>\<open>null\<close> throws; an object has the property when
  \<^verbatim>\<open>plugin\<close> is one of its keys; an array, a string, a number and a boolean have no
  property of this name, and neither has a prototype; \<open>None\<close> is \<^verbatim>\<open>undefined\<close>.
  \<^verbatim>\<open>config.plugin ?? []\<close> follows.
\<close>

definition plugin_property :: "json \<Rightarrow> json option outcome" where
  "plugin_property config =
     (case config of
        JNull \<Rightarrow> Throws
      | JObj members \<Rightarrow> Returns (map_of members (js ''plugin''))
      | _ \<Rightarrow> Returns None)"

definition or_empty_array :: "json option \<Rightarrow> json" where
  "or_empty_array v = (case v of None \<Rightarrow> JArr [] | Some JNull \<Rightarrow> JArr [] | Some x \<Rightarrow> x)"

section \<open>findPluginEntry (checker.ts)\<close>

text \<open>
  What \<open>getConfigPaths\<close> reads of its surroundings: the platform, the home directory, the
  variable \<^verbatim>\<open>APPDATA\<close> and \<^verbatim>\<open>path.join\<close>, which belongs to the runtime.
\<close>

record environment =
  platform :: jsstring
  homedir :: jsstring
  APPDATA :: "jsstring option"
  XDG_CONFIG_HOME :: "jsstring option"
  path_join :: "jsstring list \<Rightarrow> path"

definition push_unless_included :: "path list \<Rightarrow> path \<Rightarrow> path list" where
  "push_unless_included paths p = (if p \<in> set paths then paths else paths @ [p])"

definition getConfigPaths :: "constants \<Rightarrow> environment \<Rightarrow> jsstring \<Rightarrow> path list" where
  "getConfigPaths k env directory =
     (let paths =
            [path_join env [directory, js ''.opencode'', js ''opencode.json''],
             path_join env [directory, js ''.opencode'', js ''opencode.jsonc''],
             C_USER_OPENCODE_CONFIG k,
             C_USER_OPENCODE_CONFIG_JSONC k]
      in if platform env = js ''win32''
         then (let crossPlatformDir = path_join env [homedir env, js ''.config''];
                   appdataDir =
                     (case APPDATA env of
                        Some a \<Rightarrow> a
                      | None \<Rightarrow> path_join env [homedir env, js ''AppData'', js ''Roaming''])
               in if appdataDir \<noteq> []
                  then (let alternateDir =
                              (if C_USER_CONFIG_DIR k = crossPlatformDir then appdataDir
                               else crossPlatformDir);
                            alternateConfig =
                              path_join env [alternateDir, js ''opencode'', js ''opencode.json''];
                            alternateConfigJsonc =
                              path_join env [alternateDir, js ''opencode'', js ''opencode.jsonc'']
                        in push_unless_included (push_unless_included paths alternateConfig)
                             alternateConfigJsonc)
                  else paths)
         else paths)"

record PluginEntryInfo =
  entry :: jsstring
  isPinned :: bool
  pinnedVersion :: "jsstring option"
  configPath :: path

text \<open>
  What \<^verbatim>\<open>for (const entry of plugins)\<close> goes through: the elements of an array, the code
  points of a string, each as a string of its own; any other value is not iterable, and
  the loop throws.
\<close>

fun code_points :: "jsstring \<Rightarrow> jsstring list" where
  "code_points (c # d # cs) =
     (if high_surrogate c \<and> low_surrogate d then [c, d] # code_points cs
      else [c] # code_points (d # cs))"
| "code_points [c] = [[c]]"
| "code_points [] = []"

definition iterate :: "json \<Rightarrow> json list outcome" where
  "iterate plugins =
     (case plugins of
        JArr xs \<Rightarrow> Returns xs
      | JStr s \<Rightarrow> Returns (map JStr (code_points s))
      | _ \<Rightarrow> Throws)"

text \<open>
  The loop over the entries of one file, lines 144 to 153.  An entry that is no string is
  not equal to the package name, and \<^verbatim>\<open>entry.startsWith\<close> is then not a function (of
  \<^verbatim>\<open>null\<close>, not even a property): the call throws.
\<close>

fun scan_entries :: "constants \<Rightarrow> path \<Rightarrow> json list \<Rightarrow> PluginEntryInfo option outcome" where
  "scan_entries k p [] = Returns None"
| "scan_entries k p (x # xs) =
     (case x of
        JStr e \<Rightarrow>
          if e = C_PACKAGE_NAME k
          then Returns (Some \<lparr>entry = e, isPinned = False, pinnedVersion = None, configPath = p\<rparr>)
          else if prefix (C_PACKAGE_NAME k @ [at_sign]) e
          then (let version = drop (length (C_PACKAGE_NAME k) + 1) e;
                    pinned = (version \<noteq> js ''latest'')
                in Returns (Some \<lparr>entry = e, isPinned = pinned,
                                  pinnedVersion = (if pinned then Some version else None),
                                  configPath = p\<rparr>))
          else scan_entries k p xs
      | _ \<Rightarrow> Throws)"

text \<open>
  The body of the \<^verbatim>\<open>try\<close> for one candidate file whose text has been read, lines 140 to
  153.
\<close>

definition entry_in_text ::
  "constants \<Rightarrow> json_parse \<Rightarrow> path \<Rightarrow> jsstring \<Rightarrow> PluginEntryInfo option outcome"
where
  "entry_in_text k parse p content =
     (case parse (stripJsonComments content) of
        None \<Rightarrow> Throws
      | Some config \<Rightarrow>
          (case plugin_property config of
             Throws \<Rightarrow> Throws
           | Returns v \<Rightarrow>
               (case iterate (or_empty_array v) of
                  Throws \<Rightarrow> Throws
                | Returns plugins \<Rightarrow> scan_entries k p plugins)))"

text \<open>
  The loop over the candidate files, lines 137 to 157.  A file that is missing or cannot
  be read is passed over; so is one for which the body throws, and one in which the loop
  over the entries ends without a result.
\<close>

fun find_in_paths ::
  "constants \<Rightarrow> json_parse \<Rightarrow> filesystem \<Rightarrow> path list \<Rightarrow> PluginEntryInfo option"
where
  "find_in_paths k parse fs [] = None"
| "find_in_paths k parse fs (p # ps) =
     (if \<not> existsSync fs p then find_in_paths k parse fs ps
      else case readFileSync fs p of
        None \<Rightarrow> find_in_paths k parse fs ps
      | Some content \<Rightarrow>
          (case entry_in_text k parse p content of
             Returns (Some info) \<Rightarrow> Some info
           | _ \<Rightarrow> find_in_paths k parse fs ps))"

definition findPluginEntry ::
  "constants \<Rightarrow> environment \<Rightarrow> json_parse \<Rightarrow> filesystem \<Rightarrow> jsstring \<Rightarrow> PluginEntryInfo option"
where
  "findPluginEntry k env parse fs directory =
     find_in_paths k parse fs (getConfigPaths k env directory)"

section \<open>getLatestVersion (checker.ts)\<close>

text \<open>
  What the request comes to: the promise of \<^verbatim>\<open>fetch\<close> is rejected, by a network error or
  by the abort that the timer sends, or there is a response, with its \<^verbatim>\<open>ok\<close> flag and its
  body, which is the parsed value or does not parse (\<open>None\<close>, and \<^verbatim>\<open>response.json()\<close> is
  rejected; an abort while the body is read comes to the same).
\<close>

datatype rejection = NetworkError | Aborted

datatype fetch_outcome =
  Rejected rejection
| Response bool "json option"

text \<open>
  \<^verbatim>\<open>data[channel]\<close> reads a property by its name.  A value has properties of its own: an
  object its keys, an array and a string their \<^verbatim>\<open>length\<close> and their indices, written as
  decimal numbers without a leading zero.  What is not found there is looked up in the
  prototypes, and every value but \<^verbatim>\<open>null\<close> ends in \<^verbatim>\<open>Object.prototype\<close>, whose members are
  the twelve names below; a member of a prototype is a function or an object, never
  \<^verbatim>\<open>null\<close> or \<^verbatim>\<open>undefined\<close>.  The members that the prototypes of arrays, strings, numbers
  and booleans add depend on the version of the runtime and are the parameter \<open>builtins\<close>.
\<close>

definition object_prototype :: "jsstring list" where
  "object_prototype =
     [js ''constructor'', js ''__defineGetter__'', js ''__defineSetter__'',
      js ''hasOwnProperty'', js ''__lookupGetter__'', js ''__lookupSetter__'',
      js ''isPrototypeOf'', js ''propertyIsEnumerable'', js ''toString'', js ''valueOf'',
      js ''__proto__'', js ''toLocaleString'']"

definition array_index :: "jsstring \<Rightarrow> nat option" where
  "array_index name =
     (if name \<noteq> [] \<and> list_all digit name \<and> (length name = 1 \<or> hd name \<noteq> 48)
      then Some (foldl (\<lambda>n c. 10 * n + (c - 48)) 0 name)
      else None)"

definition own_property :: "json \<Rightarrow> jsstring \<Rightarrow> json option" where
  "own_property v name =
     (case v of
        JObj members \<Rightarrow> map_of members name
      | JArr xs \<Rightarrow>
          if name = js ''length'' then Some (JNum (real (length xs)))
          else (case array_index name of
                  Some i \<Rightarrow> if i < length xs then Some (xs ! i) else None
                | None \<Rightarrow> None)
      | JStr s \<Rightarrow>
          if name = js ''length'' then Some (JNum (real (length s)))
          else (case array_index name of
                  Some i \<Rightarrow> if i < length s then Some (JStr [s ! i]) else None
                | None \<Rightarrow> None)
      | _ \<Rightarrow> None)"

datatype property = Data json | Builtin jsstring

definition inherited :: "(json \<Rightarrow> jsstring \<Rightarrow> bool) \<Rightarrow> json \<Rightarrow> jsstring \<Rightarrow> bool" where
  "inherited builtins v name \<longleftrightarrow>
     name \<in> set object_prototype \<or> (case v of JObj _ \<Rightarrow> False | _ \<Rightarrow> builtins v name)"

definition get_property ::
  "(json \<Rightarrow> jsstring \<Rightarrow> bool) \<Rightarrow> json \<Rightarrow> jsstring \<Rightarrow> property option outcome"
where
  "get_property builtins v name =
     (case v of
        JNull \<Rightarrow> Throws
      | _ \<Rightarrow>
          Returns (case own_property v name of
                     Some x \<Rightarrow> Some (Data x)
                   | None \<Rightarrow> if inherited builtins v name then Some (Builtin name) else None))"

definition nullish_property :: "property option \<Rightarrow> bool" where
  "nullish_property v \<longleftrightarrow> v = None \<or> v = Some (Data JNull)"

text \<open>
  The function, with \<open>None\<close> for the result \<^verbatim>\<open>null\<close>.  The parameter \<^verbatim>\<open>channel\<close> has the
  default \<^verbatim>\<open>"latest"\<close>.  Whatever is thrown is caught, and the result is then \<^verbatim>\<open>null\<close>.
\<close>

definition getLatestVersion ::
  "(json \<Rightarrow> jsstring \<Rightarrow> bool) \<Rightarrow> fetch_outcome \<Rightarrow> jsstring option \<Rightarrow> property option"
where
  "getLatestVersion builtins outcome channel_arg =
     (let channel = (case channel_arg of None \<Rightarrow> js ''latest'' | Some c \<Rightarrow> c)
      in case outcome of
           Rejected _ \<Rightarrow> None
         | Response ok body \<Rightarrow>
             if \<not> ok then None
             else (case body of
                     None \<Rightarrow> None
                   | Some data \<Rightarrow>
                       (case get_property builtins data channel of
                          Throws \<Rightarrow> None
                        | Returns v \<Rightarrow>
                            if \<not> nullish_property v then v
                            else (case get_property builtins data (js ''latest'') of
                                    Throws \<Rightarrow> None
                                  | Returns w \<Rightarrow> if \<not> nullish_property w then w else None))))"

section \<open>addPluginToOpenCodeConfig (src/cli/config-manager.ts)\<close>

definition PACKAGE_NAME :: jsstring where
  "PACKAGE_NAME = js ''oh-my-opencode-slim''"

definition getConfigDir :: "environment \<Rightarrow> path" where
  "getConfigDir env =
     (if truthy (XDG_CONFIG_HOME env)
      then (case XDG_CONFIG_HOME env of
              Some x \<Rightarrow> path_join env [x, js ''opencode'']
            | None \<Rightarrow> path_join env [homedir env, js ''.config'', js ''opencode''])
      else path_join env [homedir env, js ''.config'', js ''opencode''])"

definition getConfigJson :: "environment \<Rightarrow> path" where
  "getConfigJson env = path_join env [getConfigDir env, js ''opencode.json'']"

definition getConfigJsonc :: "environment \<Rightarrow> path" where
  "getConfigJsonc env = path_join env [getConfigDir env, js ''opencode.jsonc'']"

definition ensureConfigDir :: "environment \<Rightarrow> filesystem \<Rightarrow> filesystem option" where
  "ensureConfigDir env fs =
     (let configDir = getConfigDir env
      in if \<not> existsSync fs configDir then mkdirSync fs configDir else Some fs)"

text \<open>\<^verbatim>\<open>s.trim()\<close> removes the white space at both ends.\<close>

definition trim :: "jsstring \<Rightarrow> jsstring" where
  "trim s = rev (dropWhile white_space (rev (dropWhile white_space s)))"

text \<open>
  The result \<^verbatim>\<open>null\<close> is the value \<open>JNull\<close>, whether it is returned as such or parsed from
  the text \<^verbatim>\<open>null\<close>.  The size that \<^verbatim>\<open>statSync\<close> reports is zero for a file without bytes
  only; a directory has a size that is not zero, and reading it throws.
\<close>

definition parseConfigFile :: "json_parse \<Rightarrow> filesystem \<Rightarrow> path \<Rightarrow> json" where
  "parseConfigFile parse fs p =
     (if \<not> existsSync fs p then JNull
      else if nodes fs p = Some (File []) then JNull
      else case readFileSync fs p of
        None \<Rightarrow> JNull
      | Some content \<Rightarrow>
          if length (trim content) = 0 then JNull
          else (case parse (stripJsonComments content) of None \<Rightarrow> JNull | Some config \<Rightarrow> config))"

text \<open>\<^verbatim>\<open>path.replace(/\.json$/, ".jsonc")\<close> on a path that ends with \<^verbatim>\<open>.json\<close>.\<close>

definition parseConfig :: "json_parse \<Rightarrow> filesystem \<Rightarrow> path \<Rightarrow> json" where
  "parseConfig parse fs p =
     (let config = parseConfigFile parse fs p
      in if truthy_value config then config
         else if suffix (js ''.json'') p
         then (let jsoncPath = take (length p - 5) p @ js ''.jsonc''
               in parseConfigFile parse fs jsoncPath)
         else JNull)"

definition getExistingConfigPath :: "environment \<Rightarrow> filesystem \<Rightarrow> path" where
  "getExistingConfigPath env fs =
     (let jsonPath = getConfigJson env
      in if existsSync fs jsonPath then jsonPath
         else (let jsoncPath = getConfigJsonc env
               in if existsSync fs jsoncPath then jsoncPath else jsonPath))"

text \<open>
  The parameter \<open>stringify\<close> is \<^verbatim>\<open>JSON.stringify(config, null, 2)\<close>.  The warning for a
  \<^verbatim>\<open>.jsonc\<close> path goes to the console and is left out.
\<close>

definition writeConfig ::
  "json_stringify \<Rightarrow> filesystem \<Rightarrow> path \<Rightarrow> json \<Rightarrow> filesystem option"
where
  "writeConfig stringify fs p config = writeFileSync fs p (stringify config @ [10])"

text \<open>
  \<^verbatim>\<open>plugins.filter(...)\<close>: only an array has the method, so the call throws for every other
  value.  The callback compares an element with the package name and then calls its
  \<^verbatim>\<open>startsWith\<close>, which throws for an element that is no string.
\<close>

fun filter_entries :: "json list \<Rightarrow> json list outcome" where
  "filter_entries [] = Returns []"
| "filter_entries (x # xs) =
     (case x of
        JStr p \<Rightarrow>
          (case filter_entries xs of
             Throws \<Rightarrow> Throws
           | Returns rest \<Rightarrow>
               Returns (if p \<noteq> PACKAGE_NAME \<and> \<not> prefix (PACKAGE_NAME @ [at_sign]) p
                        then x # rest else rest))
      | _ \<Rightarrow> Throws)"

definition filter_plugins :: "json \<Rightarrow> json list outcome" where
  "filter_plugins plugins = (case plugins of JArr xs \<Rightarrow> filter_entries xs | _ \<Rightarrow> Throws)"

text \<open>
  \<^verbatim>\<open>config.plugin = filteredPlugins\<close>: an object gets the value under its key \<^verbatim>\<open>plugin\<close>, in
  the place of the old value or behind the other keys.  An array takes the property too,
  but \<^verbatim>\<open>JSON.stringify\<close>, the only reader that follows, prints the elements of an array and
  nothing else, so the array stands for itself.  The module is in strict mode, where the
  assignment to a string, a number or a boolean throws.
\<close>

fun set_member :: "jsstring \<Rightarrow> json \<Rightarrow> (jsstring \<times> json) list \<Rightarrow> (jsstring \<times> json) list" where
  "set_member name v [] = [(name, v)]"
| "set_member name v ((n, x) # members) =
     (if n = name then (n, v) # members else (n, x) # set_member name v members)"

definition set_plugin :: "json \<Rightarrow> json \<Rightarrow> json outcome" where
  "set_plugin config v =
     (case config of
        JObj members \<Rightarrow> Returns (JObj (set_member (js ''plugin'') v members))
      | JArr xs \<Rightarrow> Returns (JArr xs)
      | _ \<Rightarrow> Throws)"

text \<open>
  The result of a merge.  Its path is the field \<^verbatim>\<open>configPath\<close> of the source, under another
  name because \<open>PluginEntryInfo\<close> has a field of that name.  Of the error, which of the two
  messages it is; the text of the exception that follows in the message is the runtime's.
\<close>

datatype merge_error = CreateDirectoryFailed | UpdateConfigFailed

record ConfigMergeResult =
  success :: bool
  resultPath :: path
  error :: "merge_error option"

text \<open>
  Lines 176 to 189, the body of the second \<^verbatim>\<open>try\<close>: the configuration to write, or what
  is thrown on the way.
\<close>

definition merged_config :: "json_parse \<Rightarrow> filesystem \<Rightarrow> path \<Rightarrow> json outcome" where
  "merged_config parse fs p =
     (let parsed = parseConfig parse fs p;
          config = (if parsed = JNull then JObj [] else parsed)
      in case plugin_property config of
           Throws \<Rightarrow> Throws
         | Returns v \<Rightarrow>
             (case filter_plugins (or_empty_array v) of
                Throws \<Rightarrow> Throws
              | Returns filteredPlugins \<Rightarrow>
                  set_plugin config (JArr (filteredPlugins @ [JStr PACKAGE_NAME]))))"

definition addPluginToOpenCodeConfig ::
  "environment \<Rightarrow> json_parse \<Rightarrow> json_stringify \<Rightarrow> filesystem \<Rightarrow>
     ConfigMergeResult \<times> filesystem"
where
  "addPluginToOpenCodeConfig env parse stringify fs =
     (case ensureConfigDir env fs of
        None \<Rightarrow>
          (\<lparr>success = False, resultPath = getConfigDir env,
            error = Some CreateDirectoryFailed\<rparr>, fs)
      | Some fs1 \<Rightarrow>
          (let p = getExistingConfigPath env fs1
           in case merged_config parse fs1 p of
                Throws \<Rightarrow>
                  (\<lparr>success = False, resultPath = p, error = Some UpdateConfigFailed\<rparr>, fs1)
              | Returns config \<Rightarrow>
                  (case writeConfig stringify fs1 p config of
                     None \<Rightarrow>
                       (\<lparr>success = False, resultPath = p, error = Some UpdateConfigFailed\<rparr>, fs1)
                   | Some fs2 \<Rightarrow> (\<lparr>success = True, resultPath = p, error = None\<rparr>, fs2))))"

section \<open>Notions of the specification\<close>

text \<open>White space only.\<close>

definition spaces :: "jsstring \<Rightarrow> bool" where
  "spaces ws \<longleftrightarrow> (\<forall>w\<in>set ws. white_space w)"

text \<open>
  A comma followed by optional white space and a closing brace or bracket occurs in the
  text.
\<close>

definition trailing_comma_in :: "jsstring \<Rightarrow> bool" where
  "trailing_comma_in s \<longleftrightarrow>
     (\<exists>ws c. spaces ws \<and> (c = rbrace \<or> c = rbracket) \<and> sublist (comma # ws @ [c]) s)"

text \<open>
  The document has a \<^verbatim>\<open>"plugin"\<close> array: the key, a colon and an opening bracket, with
  optional white space around the colon, occur in it.
\<close>

definition has_plugin_array :: "jsstring \<Rightarrow> bool" where
  "has_plugin_array content \<longleftrightarrow>
     (\<exists>ws1 ws2. spaces ws1 \<and> spaces ws2 \<and>
        sublist (js ''\"plugin\"'' @ ws1 @ [colon] @ ws2 @ [lbracket]) content)"

text \<open>The entry occurs in the text between two quote characters, single or double.\<close>

definition quoted_in :: "jsstring \<Rightarrow> jsstring \<Rightarrow> bool" where
  "quoted_in e s \<longleftrightarrow> (\<exists>q q'. is_quote q \<and> is_quote q' \<and> sublist (q # e @ [q']) s)"

text \<open>The first quoted occurrence of the entry in the text, with its two quotes.\<close>

definition first_quoted :: "jsstring \<Rightarrow> jsstring \<Rightarrow> jsstring option" where
  "first_quoted e s =
     (case search (entryPattern e) s of None \<Rightarrow> None | Some (i, m) \<Rightarrow> Some m)"





definition ascii_text :: "jsstring \<Rightarrow> bool" where
  "ascii_text s \<longleftrightarrow> list_all (\<lambda>c. c < 128) s"

section \<open>Example surroundings\<close>

text \<open>
  Values for the parameters, used where a property is shown at a concrete input: the
  constants of \<^verbatim>\<open>checker.ts\<close>; file systems with one file, given by its text or by its
  bytes, and with one more file; a \<^verbatim>\<open>path.join\<close> that puts a slash between the parts; an
  environment, and one of the platform \<^verbatim>\<open>win32\<close>.
\<close>

definition example_constants :: constants where
  "example_constants =
     \<lparr>C_PACKAGE_NAME = js ''oh-my-opencode-slim'',
      C_USER_OPENCODE_CONFIG = js ''/home/u/.config/opencode/opencode.json'',
      C_USER_OPENCODE_CONFIG_JSONC = js ''/home/u/.config/opencode/opencode.jsonc'',
      C_USER_CONFIG_DIR = js ''/home/u/.config''\<rparr>"


definition file_of_bytes :: "path \<Rightarrow> byte list \<Rightarrow> filesystem" where
  "file_of_bytes p bytes = \<lparr>nodes = [p \<mapsto> File bytes], denied = {}\<rparr>"

definition one_file :: "path \<Rightarrow> jsstring \<Rightarrow> filesystem" where
  "one_file p content = file_of_bytes p (utf8_encode content)"

definition and_file :: "filesystem \<Rightarrow> path \<Rightarrow> jsstring \<Rightarrow> filesystem" where
  "and_file fs p content = fs\<lparr>nodes := (nodes fs)(p \<mapsto> File (utf8_encode content))\<rparr>"

fun join_with :: "code_unit \<Rightarrow> jsstring list \<Rightarrow> jsstring" where
  "join_with sep [] = []"
| "join_with sep [x] = x"
| "join_with sep (x # y # ys) = x @ sep # join_with sep (y # ys)"

definition example_environment :: environment where
  "example_environment =
     \<lparr>platform = js ''linux'', homedir = js ''/home/u'', APPDATA = None,
      XDG_CONFIG_HOME = None, path_join = join_with slash\<rparr>"

definition win32_environment :: environment where
  "win32_environment =
     \<lparr>platform = js ''win32'', homedir = js ''/home/u'',
      APPDATA = Some (js ''/home/u/AppData/Roaming''),
      XDG_CONFIG_HOME = None, path_join = join_with slash\<rparr>"

text \<open>
  The documents of the examples.  The first two hold a Windows path that ends with a
  backslash, written \<^verbatim>\<open>"C:\\"\<close> in JSON, before the plugin array, and a URL behind it.
\<close>

definition project_document :: jsstring where
  "project_document =
     js ''{\"dir\": \"C:'' @ [bslash, bslash] @
     js ''\", \"plugin\": [\"oh-my-opencode-slim@1.0.0\"], \"url\": \"http://x\"}''"

definition keep_document :: jsstring where
  "keep_document =
     js ''{\"dir\": \"C:'' @ [bslash, bslash] @
     js ''\", \"plugin\": [\"keep\"], \"url\": \"http://x\"}''"

definition user_document :: jsstring where
  "user_document = js ''{\"plugin\": [\"oh-my-opencode-slim@2.0.0\"]}''"

definition number_document :: jsstring where
  "number_document = js ''{\"plugin\": [1, \"oh-my-opencode-slim@1.0.0\"]}''"

text \<open>
  A parser that agrees with \<^verbatim>\<open>JSON.parse\<close> on the texts of the examples: it knows the
  documents above and the empty array, and the other texts it is given there are no JSON.
  A printer that agrees with \<^verbatim>\<open>JSON.stringify(config, null, 2)\<close> on the two values that the
  examples print.
\<close>

definition example_parse :: json_parse where
  "example_parse s =
     (if s = project_document
      then Some (JObj [(js ''dir'', JStr (js ''C:'' @ [bslash])),
                       (js ''plugin'', JArr [JStr (js ''oh-my-opencode-slim@1.0.0'')]),
                       (js ''url'', JStr (js ''http://x''))])
      else if s = keep_document
      then Some (JObj [(js ''dir'', JStr (js ''C:'' @ [bslash])),
                       (js ''plugin'', JArr [JStr (js ''keep'')]),
                       (js ''url'', JStr (js ''http://x''))])
      else if s = user_document
      then Some (JObj [(js ''plugin'', JArr [JStr (js ''oh-my-opencode-slim@2.0.0'')])])
      else if s = number_document
      then Some (JObj [(js ''plugin'', JArr [JNum 1, JStr (js ''oh-my-opencode-slim@1.0.0'')])])
      else if s = js ''[]'' then Some (JArr [])
      else None)"

definition example_stringify :: json_stringify where
  "example_stringify config =
     (if config = JObj [(js ''plugin'', JArr [JStr (js ''oh-my-opencode-slim'')])]
      then js ''{'' @ [10] @ js ''  \"plugin\": ['' @ [10] @
           js ''    \"oh-my-opencode-slim\"'' @ [10] @ js ''  ]'' @ [10] @ js ''}''
      else if config = JArr [] then js ''[]''
      else [])"

definition example_dist_tags :: json where
  "example_dist_tags =
     JObj [(js ''latest'', JStr (js ''2.0.0'')), (js ''beta'', JStr (js ''2.1.0-beta.3''))]"

section \<open>Searching and replacing\<close>

lemma replace_global_no_match:
  "(\<And>t. suffix t s \<Longrightarrow> rx t = None) \<Longrightarrow> replace_global rx f s = s"
proof (induction s)
  case Nil
  then show ?case by simp
next
  case (Cons c cs)
  have "rx (c # cs) = None" using Cons.prems by simp
  moreover have "replace_global rx f cs = cs"
    using Cons.IH Cons.prems by (simp add: suffix_Cons)
  ultimately show ?case by simp
qed

lemma prefix_of_suffix_sublist: "suffix t s \<Longrightarrow> prefix p t \<Longrightarrow> sublist p s"
  by (auto simp: suffix_def prefix_def sublist_def)

lemma suffix_set: "suffix t s \<Longrightarrow> set t \<subseteq> set s"
  by (auto simp: suffix_def)

lemma search_None_iff: "search rx s = None \<longleftrightarrow> (\<forall>t. suffix t s \<longrightarrow> rx t = None)"
proof (induction s)
  case Nil
  then show ?case by (simp split: option.splits)
next
  case (Cons c cs)
  show ?case
  proof (cases "rx (c # cs)")
    case None
    then show ?thesis using Cons.IH by (auto simp: suffix_Cons split: option.splits)
  next
    case (Some m)
    then show ?thesis by (auto simp: suffix_Cons)
  qed
qed

lemma search_SomeD:
  "search rx s = Some (i, m) \<Longrightarrow>
     i \<le> length s \<and> rx (drop i s) = Some m \<and> (\<forall>j<i. rx (drop j s) = None)"
proof (induction s arbitrary: i)
  case Nil
  then show ?case by (simp split: option.splits)
next
  case (Cons c cs)
  show ?case
  proof (cases "rx (c # cs)")
    case (Some m')
    then show ?thesis using Cons.prems by simp
  next
    case None
    then obtain i' where s: "search rx cs = Some (i', m)" and i: "i = Suc i'"
      using Cons.prems by (auto split: option.splits)
    from Cons.IH [OF s] have ih: "i' \<le> length cs" "rx (drop i' cs) = Some m"
      "\<forall>j<i'. rx (drop j cs) = None" by simp_all
    have "rx (drop j (c # cs)) = None" if "j < i" for j
      using that None ih(3) i by (cases j) auto
    then show ?thesis using ih i by simp
  qed
qed

lemma search_hit: "suffix t s \<Longrightarrow> rx t = Some m \<Longrightarrow> search rx s \<noteq> None"
  by (auto simp: search_None_iff)

lemma search_hitD: "search rx s \<noteq> None \<Longrightarrow> \<exists>t m. suffix t s \<and> rx t = Some m"
  by (auto simp: search_None_iff)

text \<open>
  The definitions that the simplifier unfolds to run the model on a concrete text.
\<close>

lemmas strip_eval = js_def stripJsonComments_def commentPattern_def trailingCommaPattern_def
  escaped_quote_def quoted_string_def comment_def comma_closer_def keep_unless_comment_def
  drop_comma_def truthy_def line_terminator_def white_space_def

lemma bracket_scan_stop: "bracket_scan content i 0 e = e"
  by (subst bracket_scan.simps) simp

lemma bracket_scan_step:
  "i < length content \<Longrightarrow> 0 < b \<Longrightarrow>
     bracket_scan content i b e =
       bracket_scan content (Suc i)
         (if content ! i = lbracket then Suc b else if content ! i = rbracket then b - 1 else b) i"
  by (subst bracket_scan.simps) simp

lemmas pattern_eval = js_def white_space_def pluginPattern_def entryPattern_def is_quote_def
  slice_def bracket_scan_step bracket_scan_stop

section \<open>UTF-8: what is decoded is encoded back\<close>






lemma utf8_encode_ascii: "ascii_text s \<Longrightarrow> utf8_encode s = s"
  by (induction s) (auto simp: ascii_text_def high_surrogate_def low_surrogate_def encode_unit_def)

lemma utf8_decode_ascii: "ascii_text s \<Longrightarrow> utf8_decode s = s"
  by (induction s) (auto simp: ascii_text_def)




lemma file_of_bytes_read: "readFileSync (file_of_bytes p bytes) p = Some (utf8_decode bytes)"
  by (simp add: file_of_bytes_def readFileSync_def)

lemma file_of_bytes_write:
  "writeFileSync (file_of_bytes p bytes) p c = Some (file_of_bytes p (utf8_encode c))"
  by (simp add: file_of_bytes_def writeFileSync_def)

lemma one_file_read: "ascii_text c \<Longrightarrow> readFileSync (one_file p c) p = Some c"
  by (simp add: one_file_def file_of_bytes_read utf8_encode_ascii utf8_decode_ascii)

lemma one_file_write: "writeFileSync (one_file p c) p c' = Some (one_file p c')"
  by (simp add: one_file_def file_of_bytes_write)

section \<open>stripJsonComments on text without strings, comments and trailing commas\<close>

lemma dropWhile_spaces: "spaces ws \<Longrightarrow> \<not> white_space c \<Longrightarrow> dropWhile white_space (ws @ c # r) = c # r"
  by (simp add: spaces_def dropWhile_append2)

lemma takeWhile_spaces: "spaces ws \<Longrightarrow> \<not> white_space c \<Longrightarrow> takeWhile white_space (ws @ c # r) = ws"
  by (simp add: spaces_def takeWhile_append2)

lemma spaces_takeWhile: "spaces (takeWhile white_space xs)"
  by (auto simp: spaces_def dest: set_takeWhileD)

lemma escaped_quote_None: "dquote \<notin> set s \<Longrightarrow> escaped_quote s = None"
  by (auto simp: escaped_quote_def split: list.splits)

lemma quoted_string_None: "dquote \<notin> set s \<Longrightarrow> quoted_string s = None"
  by (auto simp: quoted_string_def split: list.splits)

lemma comment_Some_prefix:
  "comment s = Some m \<Longrightarrow> prefix [slash, slash] s \<or> prefix [slash, star] s"
  by (auto simp: comment_def split: list.splits if_splits)

lemma closer_not_space: "c = rbrace \<or> c = rbracket \<Longrightarrow> \<not> white_space c"
  by (auto simp: white_space_def)

lemma comma_closer_Some_iff:
  "comma_closer t \<noteq> None \<longleftrightarrow>
     (\<exists>ws c rest. t = comma # ws @ c # rest \<and> spaces ws \<and>
        (c = rbrace \<or> c = rbracket))"
proof
  assume "comma_closer t \<noteq> None"
  then obtain cs d ds where t: "t = comma # cs" and d: "dropWhile white_space cs = d # ds"
    and c: "d = rbrace \<or> d = rbracket"
    by (auto simp: comma_closer_def split: list.splits if_splits)
  have "cs = takeWhile white_space cs @ d # ds"
    using d takeWhile_dropWhile_id [of white_space cs] by simp
  moreover have "spaces (takeWhile white_space cs)"
    by (rule spaces_takeWhile)
  ultimately show "\<exists>ws c rest. t = comma # ws @ c # rest \<and> spaces ws \<and>
        (c = rbrace \<or> c = rbracket)"
    using t c by blast
next
  assume "\<exists>ws c rest. t = comma # ws @ c # rest \<and> spaces ws \<and>
        (c = rbrace \<or> c = rbracket)"
  then obtain ws c rest where t: "t = comma # ws @ c # rest"
    and ws: "spaces ws" and c: "c = rbrace \<or> c = rbracket"
    by blast
  have "dropWhile white_space (ws @ c # rest) = c # rest"
    using ws closer_not_space [OF c] by (simp add: dropWhile_spaces)
  then show "comma_closer t \<noteq> None"
    using t c by (auto simp: comma_closer_def)
qed

lemma trailing_comma_in_iff:
  "trailing_comma_in s \<longleftrightarrow> (\<exists>t\<in>set (suffixes s). comma_closer t \<noteq> None)"
proof
  assume "trailing_comma_in s"
  then obtain ws c ps ss where ws: "spaces ws" and c: "c = rbrace \<or> c = rbracket"
    and s: "s = ps @ (comma # ws @ [c]) @ ss"
    by (auto simp: trailing_comma_in_def sublist_def)
  have "suffix (comma # ws @ c # ss) s" using s by (simp add: suffix_def)
  moreover have "comma_closer (comma # ws @ c # ss) \<noteq> None"
    unfolding comma_closer_Some_iff using ws c by blast
  ultimately show "\<exists>t\<in>set (suffixes s). comma_closer t \<noteq> None"
    unfolding in_set_suffixes [symmetric] by blast
next
  assume "\<exists>t\<in>set (suffixes s). comma_closer t \<noteq> None"
  then obtain t where t: "suffix t s" and m: "comma_closer t \<noteq> None"
    unfolding in_set_suffixes [symmetric] by blast
  from m obtain ws c rest where r: "t = comma # ws @ c # rest"
    and ws: "spaces ws" and c: "c = rbrace \<or> c = rbracket"
    unfolding comma_closer_Some_iff by blast
  have "prefix (comma # ws @ [c]) t" using r by (simp add: prefix_def)
  then have "sublist (comma # ws @ [c]) s" using t by (rule prefix_of_suffix_sublist [rotated])
  then show "trailing_comma_in s"
    unfolding trailing_comma_in_def using ws c by blast
qed

lemma commentPattern_None:
  assumes "dquote \<notin> set t" "\<not> prefix [slash, slash] t" "\<not> prefix [slash, star] t"
  shows "commentPattern t = None"
proof -
  have "comment t = None"
    using assms comment_Some_prefix [of t] by (cases "comment t") auto
  then show ?thesis
    using assms by (simp add: commentPattern_def escaped_quote_None quoted_string_None)
qed

lemma trailingCommaPattern_None:
  assumes "dquote \<notin> set t" "comma_closer t = None"
  shows "trailingCommaPattern t = None"
  using assms by (simp add: trailingCommaPattern_def escaped_quote_None quoted_string_None)

text \<open>
  Claim C9.  A text without a double quote, without \<^verbatim>\<open>//\<close>, without \<^verbatim>\<open>/*\<close> and without a
  comma that is followed by optional white space and a closing brace or bracket comes
  back from \<open>stripJsonComments\<close> as it is.  So do the empty text and a text of white space.
  The function has no branch that throws: it is total, and on the text of the
  repository's test with a string that is not terminated it returns that text.
\<close>

theorem stripJsonComments_plain_unchanged:
  "(dquote \<notin> set s \<and> \<not> sublist (js ''//'') s \<and> \<not> sublist (js ''/*'') s \<and>
      \<not> trailing_comma_in s \<longrightarrow> stripJsonComments s = s) \<and>
   stripJsonComments [] = [] \<and>
   (spaces w \<longrightarrow> stripJsonComments w = w) \<and>
   stripJsonComments (js ''{\"key\": \"unclosed'') = js ''{\"key\": \"unclosed''"
proof -
  have plain: "stripJsonComments u = u"
    if q: "dquote \<notin> set u" and l: "\<not> sublist [slash, slash] u"
      and b: "\<not> sublist [slash, star] u" and c: "\<not> trailing_comma_in u" for u
  proof -
    have "commentPattern t = None" if "suffix t u" for t
    proof (rule commentPattern_None)
      show "dquote \<notin> set t" using q suffix_set [OF that] by blast
      show "\<not> prefix [slash, slash] t" using l prefix_of_suffix_sublist [OF that] by blast
      show "\<not> prefix [slash, star] t" using b prefix_of_suffix_sublist [OF that] by blast
    qed
    then have first: "replace_global commentPattern keep_unless_comment u = u"
      by (rule replace_global_no_match)
    have "trailingCommaPattern t = None" if "suffix t u" for t
    proof (rule trailingCommaPattern_None)
      show "dquote \<notin> set t" using q suffix_set [OF that] by blast
      show "comma_closer t = None"
        using c that unfolding trailing_comma_in_iff in_set_suffixes [symmetric] by blast
    qed
    then have "replace_global trailingCommaPattern drop_comma u = u"
      by (rule replace_global_no_match)
    with first show ?thesis by (simp add: stripJsonComments_def)
  qed
  have spaces: "stripJsonComments u = u" if sp: "spaces u" for u
  proof (rule plain)
    show "dquote \<notin> set u" using sp by (auto simp: spaces_def white_space_def)
    have "slash \<notin> set u" using sp by (auto simp: spaces_def white_space_def)
    then show "\<not> sublist [slash, slash] u" "\<not> sublist [slash, star] u"
      by (auto simp: sublist_def)
    have "comma \<notin> set u" using sp by (auto simp: spaces_def white_space_def)
    then show "\<not> trailing_comma_in u"
      by (auto simp: trailing_comma_in_def sublist_def)
  qed
  have "stripJsonComments (js ''{\"key\": \"unclosed'') = js ''{\"key\": \"unclosed''"
    by (simp add: strip_eval)
  moreover have "stripJsonComments [] = []" using spaces [of "[]"] by (simp add: spaces_def)
  ultimately show ?thesis using plain [of s] spaces [of w] by (simp add: js_def)
qed

text \<open>
  Claim C9 at concrete texts: one with commas, a slash and brackets, none of them in a
  forbidden pattern, and one of white space with a line break.
\<close>

theorem stripJsonComments_plain_unchanged_witness:
  "dquote \<notin> set (js ''{ a: 1, b: [2 / 3] }'') \<and>
   \<not> sublist (js ''//'') (js ''{ a: 1, b: [2 / 3] }'') \<and>
   \<not> sublist (js ''/*'') (js ''{ a: 1, b: [2 / 3] }'') \<and>
   \<not> trailing_comma_in (js ''{ a: 1, b: [2 / 3] }'') \<and>
   stripJsonComments (js ''{ a: 1, b: [2 / 3] }'') = js ''{ a: 1, b: [2 / 3] }'' \<and>
   spaces (js '' \<newline>  '') \<and>
   stripJsonComments (js '' \<newline>  '') = js '' \<newline>  ''"
proof -
  have 1: "dquote \<notin> set (js ''{ a: 1, b: [2 / 3] }'')" by (simp add: js_def)
  have 2: "\<not> sublist (js ''//'') (js ''{ a: 1, b: [2 / 3] }'')"
    by (simp add: js_def sublist_Cons_right)
  have 3: "\<not> sublist (js ''/*'') (js ''{ a: 1, b: [2 / 3] }'')"
    by (simp add: js_def sublist_Cons_right)
  have 4: "\<not> trailing_comma_in (js ''{ a: 1, b: [2 / 3] }'')"
    unfolding trailing_comma_in_iff
    by (simp add: js_def comma_closer_def white_space_def)
  have 5: "spaces (js '' \<newline>  '')"
    by (simp add: js_def spaces_def white_space_def)
  show ?thesis
    using 1 2 3 4 5
      stripJsonComments_plain_unchanged [of "js ''{ a: 1, b: [2 / 3] }''" "js '' \<newline>  ''"]
    by blast
qed

section \<open>stripJsonComments and a string that ends with an escaped backslash\<close>

text \<open>
  Claim C1.  The pattern for a string takes a backslash before a double quote for an
  escaped quote, also when that backslash is itself escaped.  In the JSON text
  \<^verbatim>\<open>["\\","//"]\<close> the first string is the single backslash; the pattern reads on past its
  closing quote to the opening quote of the second string, the two slashes that follow
  are then outside every string, and they and the rest of the line are removed as a
  comment.  What is left is no JSON text.  The same happens to a Windows path that ends
  with a backslash when a later string holds a URL.
\<close>

theorem stripJsonComments_escaped_backslash:
  "stripJsonComments (js ''[\"'' @ [bslash, bslash] @ js ''\",\"//\"]'') =
     js ''[\"'' @ [bslash, bslash] @ js ''\",\"'' \<and>
   stripJsonComments
     (js ''{\"dir\": \"C:'' @ [bslash, bslash] @ js ''\", \"url\": \"http://x\"}'') =
     js ''{\"dir\": \"C:'' @ [bslash, bslash] @ js ''\", \"url\": \"http:''"
  by (simp add: strip_eval)

section \<open>updatePinnedVersion: the target is absent\<close>

lemma colon_not_space: "\<not> white_space colon"
  by (simp add: white_space_def)

lemma lbracket_not_space: "\<not> white_space lbracket"
  by (simp add: white_space_def)

lemma pluginPattern_SomeD:
  assumes "pluginPattern t = Some m"
  shows "\<exists>ws1 ws2 r. spaces ws1 \<and> spaces ws2 \<and>
           m = js ''\"plugin\"'' @ ws1 @ [colon] @ ws2 @ [lbracket] \<and> t = m @ r"
proof -
  let ?key = "js ''\"plugin\"''"
  from assms have p: "prefix ?key t"
    by (auto simp: pluginPattern_def Let_def split: if_splits)
  define r1 where "r1 = drop (length ?key) t"
  have t: "t = ?key @ r1" using p by (auto simp: r1_def prefix_def)
  from assms p obtain r2 where d1: "dropWhile white_space r1 = colon # r2"
    by (auto simp: pluginPattern_def Let_def r1_def split: if_splits list.splits)
  from assms p d1 obtain r3 where d2: "dropWhile white_space r2 = lbracket # r3"
    by (auto simp: pluginPattern_def Let_def r1_def split: if_splits list.splits)
  from assms p d1 d2 have m: "m = ?key @ takeWhile white_space r1 @ [colon] @
      takeWhile white_space r2 @ [lbracket]"
    by (auto simp: pluginPattern_def Let_def r1_def split: if_splits list.splits)
  have "r1 = takeWhile white_space r1 @ colon # r2"
    using d1 takeWhile_dropWhile_id [of white_space r1] by simp
  moreover have "r2 = takeWhile white_space r2 @ lbracket # r3"
    using d2 takeWhile_dropWhile_id [of white_space r2] by simp
  ultimately have "t = m @ r3" using t m by simp
  then show ?thesis using m spaces_takeWhile by blast
qed

lemma pluginPattern_SomeI:
  assumes "spaces ws1" "spaces ws2"
  shows "pluginPattern (js ''\"plugin\"'' @ ws1 @ [colon] @ ws2 @ [lbracket] @ r) =
           Some (js ''\"plugin\"'' @ ws1 @ [colon] @ ws2 @ [lbracket])"
  using assms
  by (simp add: pluginPattern_def Let_def dropWhile_spaces takeWhile_spaces
      colon_not_space lbracket_not_space)

lemma has_plugin_array_iff: "has_plugin_array content \<longleftrightarrow> search pluginPattern content \<noteq> None"
proof
  assume "has_plugin_array content"
  then obtain ws1 ws2 where ws: "spaces ws1" "spaces ws2"
    and s: "sublist (js ''\"plugin\"'' @ ws1 @ [colon] @ ws2 @ [lbracket]) content"
    by (auto simp: has_plugin_array_def)
  from s obtain ps ss where
    c: "content = ps @ (js ''\"plugin\"'' @ ws1 @ [colon] @ ws2 @ [lbracket]) @ ss"
    by (auto simp: sublist_def)
  let ?t = "js ''\"plugin\"'' @ ws1 @ [colon] @ ws2 @ [lbracket] @ ss"
  have "suffix ?t content" using c by (simp add: suffix_def)
  moreover note pluginPattern_SomeI [OF ws, of ss]
  ultimately show "search pluginPattern content \<noteq> None"
    by (rule search_hit)
next
  assume "search pluginPattern content \<noteq> None"
  then obtain t m where t: "suffix t content" and pm: "pluginPattern t = Some m"
    using search_hitD by blast
  from pluginPattern_SomeD [OF pm] obtain ws1 ws2 r where ws: "spaces ws1" "spaces ws2"
    and m: "m = js ''\"plugin\"'' @ ws1 @ [colon] @ ws2 @ [lbracket]" and r: "t = m @ r"
    by blast
  have "prefix m t" using r by simp
  then have "sublist m content" using t by (rule prefix_of_suffix_sublist [rotated])
  then show "has_plugin_array content"
    unfolding has_plugin_array_def using ws m by blast
qed

lemma locate_None_iff: "locate content = None \<longleftrightarrow> \<not> has_plugin_array content"
  by (auto simp: locate_def has_plugin_array_iff Let_def split: option.splits)

lemma entryPattern_Some_iff:
  "entryPattern e t = Some m \<longleftrightarrow>
     (\<exists>q q' r. is_quote q \<and> is_quote q' \<and> m = q # e @ [q'] \<and> t = m @ r)"
proof
  assume a: "entryPattern e t = Some m"
  then obtain q r where t: "t = q # r" and q: "is_quote q" and p: "prefix e r"
    by (auto simp: entryPattern_def split: list.splits if_splits)
  from a t q p obtain q' r' where d: "drop (length e) r = q' # r'" and q': "is_quote q'"
    and m: "m = q # e @ [q']"
    by (auto simp: entryPattern_def split: list.splits if_splits)
  have "r = e @ q' # r'" using p d by (auto simp: prefix_def)
  then show "\<exists>q q' r. is_quote q \<and> is_quote q' \<and> m = q # e @ [q'] \<and> t = m @ r"
    using t q q' m by auto
next
  assume "\<exists>q q' r. is_quote q \<and> is_quote q' \<and> m = q # e @ [q'] \<and> t = m @ r"
  then show "entryPattern e t = Some m"
    by (auto simp: entryPattern_def)
qed

lemma quoted_in_iff: "quoted_in e s \<longleftrightarrow> search (entryPattern e) s \<noteq> None"
proof
  assume "quoted_in e s"
  then obtain q q' ps ss where q: "is_quote q" "is_quote q'" and s: "s = ps @ (q # e @ [q']) @ ss"
    by (auto simp: quoted_in_def sublist_def)
  have "suffix ((q # e @ [q']) @ ss) s" using s by (simp add: suffix_def)
  moreover have "entryPattern e ((q # e @ [q']) @ ss) = Some (q # e @ [q'])"
    unfolding entryPattern_Some_iff using q by blast
  ultimately show "search (entryPattern e) s \<noteq> None"
    by (rule search_hit)
next
  assume "search (entryPattern e) s \<noteq> None"
  then obtain t m where t: "suffix t s" and "entryPattern e t = Some m"
    using search_hitD by blast
  then obtain q q' r where q: "is_quote q" "is_quote q'" and m: "m = q # e @ [q']" and r: "t = m @ r"
    unfolding entryPattern_Some_iff by blast
  have "prefix m t" using r by simp
  then have "sublist m s" using t by (rule prefix_of_suffix_sublist [rotated])
  then show "quoted_in e s" unfolding quoted_in_def using q m by blast
qed

lemma patch_content_no_array:
  "\<not> has_plugin_array content \<Longrightarrow> patch_content k content oldEntry newVersion = NoPluginArray"
  using locate_None_iff [of content] by (simp add: patch_content_def Let_def)

lemma patch_content_not_found:
  "locate content = Some (startIdx, endIdx) \<Longrightarrow> \<not> quoted_in oldEntry (slice content startIdx endIdx)
     \<Longrightarrow> patch_content k content oldEntry newVersion = EntryNotFound"
  by (simp add: patch_content_def Let_def quoted_in_iff)

text \<open>
  Claim C2.  For a file that is read: when the document has no \<^verbatim>\<open>"plugin"\<close> array the
  outcome is that of line 192 (no array found), and when the array is located and the old
  entry does not occur between quotes, single or double, in the located range the outcome
  is that of line 214 (entry not found).  Both times the result is \<^verbatim>\<open>false\<close> and the file
  system is the one before the call: nothing is written.
\<close>

theorem updatePinnedVersion_absent_no_write:
  assumes "readFileSync fs file = Some content"
  shows "(\<not> has_plugin_array content \<longrightarrow>
            patch_content k content oldEntry newVersion = NoPluginArray \<and>
            updatePinnedVersion k fs file oldEntry newVersion = (False, fs)) \<and>
         (locate content = Some (startIdx, endIdx) \<and>
            \<not> quoted_in oldEntry (slice content startIdx endIdx) \<longrightarrow>
            patch_content k content oldEntry newVersion = EntryNotFound \<and>
            updatePinnedVersion k fs file oldEntry newVersion = (False, fs))"
  using assms patch_content_no_array [of content k oldEntry newVersion]
    patch_content_not_found [of content startIdx endIdx oldEntry k newVersion]
  by (auto simp: updatePinnedVersion_def)

text \<open>
  Claim C2 at a document without a plugin array and at a document whose plugin array
  holds another entry only.
\<close>

theorem updatePinnedVersion_absent_no_write_witness:
  "readFileSync (one_file (js ''/p/opencode.json'') (js ''{\"theme\": \"dark\"}''))
     (js ''/p/opencode.json'') = Some (js ''{\"theme\": \"dark\"}'') \<and>
   \<not> has_plugin_array (js ''{\"theme\": \"dark\"}'') \<and>
   patch_content example_constants (js ''{\"theme\": \"dark\"}'')
     (js ''oh-my-opencode-slim@1.0.0'') (js ''1.1.0'') = NoPluginArray \<and>
   updatePinnedVersion example_constants
     (one_file (js ''/p/opencode.json'') (js ''{\"theme\": \"dark\"}''))
     (js ''/p/opencode.json'') (js ''oh-my-opencode-slim@1.0.0'') (js ''1.1.0'') =
     (False, one_file (js ''/p/opencode.json'') (js ''{\"theme\": \"dark\"}'')) \<and>
   readFileSync (one_file (js ''/p/opencode.json'') (js ''{\"plugin\": [\"other\"]}''))
     (js ''/p/opencode.json'') = Some (js ''{\"plugin\": [\"other\"]}'') \<and>
   locate (js ''{\"plugin\": [\"other\"]}'') = Some (12, 19) \<and>
   \<not> quoted_in (js ''oh-my-opencode-slim@1.0.0'') (slice (js ''{\"plugin\": [\"other\"]}'') 12 19) \<and>
   patch_content example_constants (js ''{\"plugin\": [\"other\"]}'')
     (js ''oh-my-opencode-slim@1.0.0'') (js ''1.1.0'') = EntryNotFound \<and>
   updatePinnedVersion example_constants
     (one_file (js ''/p/opencode.json'') (js ''{\"plugin\": [\"other\"]}''))
     (js ''/p/opencode.json'') (js ''oh-my-opencode-slim@1.0.0'') (js ''1.1.0'') =
     (False, one_file (js ''/p/opencode.json'') (js ''{\"plugin\": [\"other\"]}''))"
proof -
  have a: "\<not> has_plugin_array (js ''{\"theme\": \"dark\"}'')"
    unfolding has_plugin_array_iff by (simp add: pattern_eval)
  have b: "locate (js ''{\"plugin\": [\"other\"]}'') = Some (12, 19)"
    by (simp add: locate_def pattern_eval)
  have c: "\<not> quoted_in (js ''oh-my-opencode-slim@1.0.0'')
             (slice (js ''{\"plugin\": [\"other\"]}'') 12 19)"
    unfolding quoted_in_iff by (simp add: pattern_eval)
  have t1: "ascii_text (js ''{\"theme\": \"dark\"}'')"
    and t2: "ascii_text (js ''{\"plugin\": [\"other\"]}'')"
    by (simp_all add: ascii_text_def js_def)
  note r1 = one_file_read [OF t1, of "js ''/p/opencode.json''"]
  note r2 = one_file_read [OF t2, of "js ''/p/opencode.json''"]
  show ?thesis
    using a b c r1 r2
      updatePinnedVersion_absent_no_write
        [OF r1, of example_constants "js ''oh-my-opencode-slim@1.0.0''" "js ''1.1.0''" 12 19]
      updatePinnedVersion_absent_no_write
        [OF r2, of example_constants "js ''oh-my-opencode-slim@1.0.0''" "js ''1.1.0''" 12 19]
    by blast
qed

section \<open>updatePinnedVersion: locating the array and replacing the entry\<close>

lemma slice_0: "slice s 0 b = take b s"
  by (simp add: slice_def)

lemma slice_decomp: "a \<le> b \<Longrightarrow> take a c @ slice c a b @ drop b c = c"
proof -
  assume "a \<le> b"
  then have "drop (b - a) (drop a c) = drop b c" by simp
  moreover have "take (b - a) (drop a c) @ drop (b - a) (drop a c) = drop a c"
    by (rule append_take_drop_id)
  ultimately have "slice c a b @ drop b c = drop a c" by (metis slice_def)
  then show ?thesis by simp
qed



lemma bracket_scan_ge: "e \<le> i \<Longrightarrow> e \<le> bracket_scan content i b e"
proof (induction content i b e rule: bracket_scan.induct)
  case (1 content i b e)
  show ?case
  proof (cases "i < length content \<and> b > 0")
    case True
    then have "i \<le> bracket_scan content i b e"
      using "1.IH" by (subst bracket_scan.simps) simp
    then show ?thesis using "1.prems" by simp
  next
    case False
    then show ?thesis by (subst bracket_scan.simps) auto
  qed
qed

lemma bracket_scan_le:
  "e \<le> length content \<Longrightarrow> bracket_scan content i b e \<le> length content"
proof (induction content i b e rule: bracket_scan.induct)
  case (1 content i b e)
  show ?case
  proof (cases "i < length content \<and> b > 0")
    case True
    then show ?thesis using "1.IH" by (subst bracket_scan.simps) simp
  next
    case False
    then show ?thesis using "1.prems" by (subst bracket_scan.simps) auto
  qed
qed



lemma locate_SomeD:
  assumes "locate content = Some (startIdx, endIdx)"
  shows "\<exists>index m. search pluginPattern content = Some (index, m) \<and>
           startIdx = index + length m \<and> endIdx = bracket_scan content startIdx 1 startIdx"
  using assms by (auto simp: locate_def Let_def split: option.splits)

lemma locate_opening:
  assumes "locate content = Some (startIdx, endIdx)"
  shows "\<exists>pre ws1 ws2. spaces ws1 \<and> spaces ws2 \<and>
           take startIdx content = pre @ js ''\"plugin\"'' @ ws1 @ [colon] @ ws2 @ [lbracket]"
    and "startIdx \<le> length content"
proof -
  from locate_SomeD [OF assms] obtain index m where
    s: "search pluginPattern content = Some (index, m)" and st: "startIdx = index + length m"
    by blast
  from search_SomeD [OF s] have i: "index \<le> length content"
    and p: "pluginPattern (drop index content) = Some m" by simp_all
  from pluginPattern_SomeD [OF p] obtain ws1 ws2 r where ws: "spaces ws1" "spaces ws2"
    and m: "m = js ''\"plugin\"'' @ ws1 @ [colon] @ ws2 @ [lbracket]"
    and r: "drop index content = m @ r" by blast
  define pre where "pre = take index content"
  have l: "length pre = index" using i by (simp add: pre_def)
  have c: "content = pre @ m @ r"
    using r append_take_drop_id [of index content] by (simp add: pre_def)
  have "take startIdx content = pre @ m"
    unfolding c by (simp add: st l)
  then show "\<exists>pre ws1 ws2. spaces ws1 \<and> spaces ws2 \<and>
           take startIdx content = pre @ js ''\"plugin\"'' @ ws1 @ [colon] @ ws2 @ [lbracket]"
    using ws m by blast
  show "startIdx \<le> length content" unfolding c by (simp add: st l)
qed

lemma locate_bounds:
  assumes "locate content = Some (startIdx, endIdx)"
  shows "startIdx \<le> endIdx" "endIdx \<le> length content"
proof -
  from locate_SomeD [OF assms] have e: "endIdx = bracket_scan content startIdx 1 startIdx"
    by blast
  show "startIdx \<le> endIdx" unfolding e by (rule bracket_scan_ge) simp
  show "endIdx \<le> length content"
    unfolding e using locate_opening(2) [OF assms] by (rule bracket_scan_le)
qed



lemma updatePinnedVersion_UpdatedI:
  assumes "readFileSync fs file = Some content"
    and "patch_content k content oldEntry newVersion = Updated u"
    and "writeFileSync fs file u = Some fs'"
  shows "updatePinnedVersion k fs file oldEntry newVersion = (True, fs')"
  using assms by (simp add: updatePinnedVersion_def)



lemma getSubstitution_no_dollar:
  "dollar \<notin> set t \<Longrightarrow> getSubstitution matched before after t = t"
  by (induction matched before after t rule: getSubstitution.induct) auto

lemma search_entry_SomeD:
  assumes "search (entryPattern e) s = Some (i, m)"
  shows "\<exists>q q' post. is_quote q \<and> is_quote q' \<and> m = q # e @ [q'] \<and>
           s = take i s @ m @ post \<and> post = drop (i + length m) s \<and>
           (\<forall>j<i. \<not> (\<exists>p p'. is_quote p \<and> is_quote p' \<and> prefix (p # e @ [p']) (drop j s)))"
proof -
  from search_SomeD [OF assms] have i: "i \<le> length s"
    and hit: "entryPattern e (drop i s) = Some m"
    and miss: "\<forall>j<i. entryPattern e (drop j s) = None" by simp_all
  from hit obtain q q' r where q: "is_quote q" "is_quote q'" and m: "m = q # e @ [q']"
    and r: "drop i s = m @ r"
    unfolding entryPattern_Some_iff by blast
  have s: "s = take i s @ m @ r" using r append_take_drop_id [of i s] by simp
  have "drop (i + length m) s = drop (length m) (drop i s)" by (simp add: add.commute)
  then have post: "r = drop (i + length m) s" using r by simp
  have "\<not> (\<exists>p p'. is_quote p \<and> is_quote p' \<and> prefix (p # e @ [p']) (drop j s))" if "j < i" for j
  proof
    assume "\<exists>p p'. is_quote p \<and> is_quote p' \<and> prefix (p # e @ [p']) (drop j s)"
    then obtain p p' t where "is_quote p" "is_quote p'" "drop j s = (p # e @ [p']) @ t"
      by (auto simp: prefix_def)
    then have "entryPattern e (drop j s) = Some (p # e @ [p'])"
      unfolding entryPattern_Some_iff by blast
    then show False using miss that by simp
  qed
  then show ?thesis using q m s post by blast
qed

lemma replace_first_entry:
  assumes "search (entryPattern e) s = Some (i, m)" "dollar \<notin> set t"
  shows "replace_first (entryPattern e) t s = take i s @ t @ drop (i + length m) s"
  using assms by (simp add: replace_first_def Let_def getSubstitution_no_dollar)

lemma patch_content_found:
  assumes loc: "locate content = Some (startIdx, endIdx)"
    and hit: "search (entryPattern oldEntry) (slice content startIdx endIdx) = Some (i, m)"
    and nd: "dollar \<notin> set (C_PACKAGE_NAME k @ [at_sign] @ newVersion)"
  shows "patch_content k content oldEntry newVersion =
           (let u = take startIdx content @
                    take i (slice content startIdx endIdx) @
                    ([dquote] @ (C_PACKAGE_NAME k @ [at_sign] @ newVersion) @ [dquote]) @
                    drop (i + length m) (slice content startIdx endIdx) @
                    drop endIdx content
            in if u = content then NoChanges else Updated u)"
proof -
  have "dollar \<notin> set ([dquote] @ (C_PACKAGE_NAME k @ [at_sign] @ newVersion) @ [dquote])"
    using nd by simp
  from replace_first_entry [OF hit this] show ?thesis
    using loc hit by (simp add: patch_content_def Let_def slice_0)
qed

lemma updatePinnedVersion_result:
  assumes "readFileSync fs file = Some content" "file \<notin> denied fs"
    and "patch_content k content oldEntry newVersion = (if u = content then NoChanges else Updated u)"
  shows "fst (updatePinnedVersion k fs file oldEntry newVersion) = (u \<noteq> content)"
    and "snd (updatePinnedVersion k fs file oldEntry newVersion) =
           (if u = content then fs
            else fs\<lparr>nodes := (nodes fs)(file \<mapsto> File (utf8_encode u))\<rparr>)"
    and "utf8_decode (utf8_encode u) = u \<longrightarrow>
           readFileSync (snd (updatePinnedVersion k fs file oldEntry newVersion)) file = Some u"
  using assms
  by (auto simp: updatePinnedVersion_def writeFileSync_def readFileSync_def
      split: option.splits node.splits)


section \<open>updatePinnedVersion: what a successful call leaves untouched\<close>




section \<open>updatePinnedVersion: which occurrence is replaced, and with which quotes\<close>

text \<open>
  Claim C4, as stated, at an entry between single quotes: the new entry is written between
  double quotes, not between single ones.
\<close>

theorem updatePinnedVersion_single_quotes_counterexample:
  "updatePinnedVersion example_constants
     (one_file (js ''/p/opencode.json'') (js ''{\"plugin\": ['oh-my-opencode-slim@1.0.0']}''))
     (js ''/p/opencode.json'') (js ''oh-my-opencode-slim@1.0.0'') (js ''1.1.0'') =
     (True, one_file (js ''/p/opencode.json'')
        (js ''{\"plugin\": [\"oh-my-opencode-slim@1.1.0\"]}'')) \<and>
   js ''{\"plugin\": [\"oh-my-opencode-slim@1.1.0\"]}'' \<noteq>
     js ''{\"plugin\": ['oh-my-opencode-slim@1.1.0']}''"
proof -
  let ?c = "js ''{\"plugin\": ['oh-my-opencode-slim@1.0.0']}''"
  let ?old = "js ''oh-my-opencode-slim@1.0.0''"
  have loc: "locate ?c = Some (12, 39)"
    by (simp add: locate_def pattern_eval)
  have hit: "search (entryPattern ?old) (slice ?c 12 39) = Some (0, [squote] @ ?old @ [squote])"
    by (simp add: pattern_eval)
  have nd: "dollar \<notin> set (C_PACKAGE_NAME example_constants @ [at_sign] @ js ''1.1.0'')"
    by (simp add: example_constants_def js_def)
  have pc: "patch_content example_constants ?c ?old (js ''1.1.0'') =
          Updated (js ''{\"plugin\": [\"oh-my-opencode-slim@1.1.0\"]}'')"
    unfolding patch_content_found [OF loc hit nd]
    by (simp add: js_def slice_def example_constants_def)
  have "ascii_text ?c"
    by (simp add: ascii_text_def js_def)
  note updatePinnedVersion_UpdatedI [OF one_file_read [OF this] pc one_file_write]
  moreover have "js ''{\"plugin\": [\"oh-my-opencode-slim@1.1.0\"]}'' \<noteq>
      js ''{\"plugin\": ['oh-my-opencode-slim@1.1.0']}''"
    by (simp add: js_def)
  ultimately show ?thesis
    by (intro conjI)
qed

text \<open>
  Claim C4, amended.  When the old entry occurs between quotes in the located range of a
  file that can be written, and the new entry has no dollar sign (which \<^verbatim>\<open>replace\<close> reads
  as the start of a replacement pattern), the call leaves the file with exactly the first
  quoted occurrence replaced: no quoted occurrence starts before it, what is before and
  behind it stays, and in its place stands the new entry between double quotes, whichever
  quotes the old entry had.  The result is \<^verbatim>\<open>true\<close> when this changes the text, and the
  file then holds the new text \<open>u\<close>, encoded; it is read back as \<open>u\<close> when decoding what
  is encoded gives \<open>u\<close> back.
\<close>

theorem updatePinnedVersion_replaces_first_with_double_quotes:
  assumes "readFileSync fs file = Some content"
    and "file \<notin> denied fs"
    and "locate content = Some (startIdx, endIdx)"
    and "quoted_in oldEntry (slice content startIdx endIdx)"
    and "dollar \<notin> set (C_PACKAGE_NAME k @ [at_sign] @ newVersion)"
  shows "\<exists>pre q q' post u.
           slice content startIdx endIdx = pre @ (q # oldEntry @ [q']) @ post \<and>
           is_quote q \<and> is_quote q' \<and>
           (\<forall>j<length pre. \<not> (\<exists>p p'. is_quote p \<and> is_quote p' \<and>
               prefix (p # oldEntry @ [p']) (drop j (slice content startIdx endIdx)))) \<and>
           u = take startIdx content @ pre @
                 ([dquote] @ (C_PACKAGE_NAME k @ [at_sign] @ newVersion) @ [dquote]) @
                 post @ drop endIdx content \<and>
           fst (updatePinnedVersion k fs file oldEntry newVersion) = (u \<noteq> content) \<and>
           snd (updatePinnedVersion k fs file oldEntry newVersion) =
             (if u = content then fs
              else fs\<lparr>nodes := (nodes fs)(file \<mapsto> File (utf8_encode u))\<rparr>) \<and>
           (utf8_decode (utf8_encode u) = u \<longrightarrow>
              readFileSync (snd (updatePinnedVersion k fs file oldEntry newVersion)) file =
                Some u)"
proof -
  let ?s = "slice content startIdx endIdx"
  let ?new = "[dquote] @ (C_PACKAGE_NAME k @ [at_sign] @ newVersion) @ [dquote]"
  from assms(4) obtain i m where hit: "search (entryPattern oldEntry) ?s = Some (i, m)"
    unfolding quoted_in_iff by auto
  from search_SomeD [OF hit] have i: "i \<le> length ?s" by simp
  from search_entry_SomeD [OF hit] obtain q q' post where q: "is_quote q" "is_quote q'"
    and m: "m = q # oldEntry @ [q']" and s: "?s = take i ?s @ m @ post"
    and post: "post = drop (i + length m) ?s"
    and first: "\<forall>j<i. \<not> (\<exists>p p'. is_quote p \<and> is_quote p' \<and> prefix (p # oldEntry @ [p']) (drop j ?s))"
    by blast
  let ?u = "take startIdx content @ take i ?s @ ?new @ post @ drop endIdx content"
  have pc: "patch_content k content oldEntry newVersion =
              (if ?u = content then NoChanges else Updated ?u)"
    using patch_content_found [OF assms(3) hit assms(5)] post by (simp add: Let_def)
  have len: "length (take i ?s) = i" using i by simp
  have "?s = take i ?s @ (q # oldEntry @ [q']) @ post" using s m by simp
  moreover note q
  moreover have "\<forall>j<length (take i ?s). \<not> (\<exists>p p'. is_quote p \<and> is_quote p' \<and>
               prefix (p # oldEntry @ [p']) (drop j ?s))"
    using first len by simp
  moreover note updatePinnedVersion_result(1) [OF assms(1,2) pc]
    updatePinnedVersion_result(2) [OF assms(1,2) pc]
    updatePinnedVersion_result(3) [OF assms(1,2) pc]
  ultimately show ?thesis by blast
qed

text \<open>Claim C4, amended, at the entry between single quotes.\<close>

theorem updatePinnedVersion_replaces_first_with_double_quotes_witness:
  "readFileSync
     (one_file (js ''/p/opencode.json'') (js ''{\"plugin\": ['oh-my-opencode-slim@1.0.0']}''))
     (js ''/p/opencode.json'') = Some (js ''{\"plugin\": ['oh-my-opencode-slim@1.0.0']}'') \<and>
   js ''/p/opencode.json'' \<notin>
     denied (one_file (js ''/p/opencode.json'') (js ''{\"plugin\": ['oh-my-opencode-slim@1.0.0']}'')) \<and>
   locate (js ''{\"plugin\": ['oh-my-opencode-slim@1.0.0']}'') = Some (12, 39) \<and>
   quoted_in (js ''oh-my-opencode-slim@1.0.0'')
     (slice (js ''{\"plugin\": ['oh-my-opencode-slim@1.0.0']}'') 12 39) \<and>
   dollar \<notin> set (C_PACKAGE_NAME example_constants @ [at_sign] @ js ''1.1.0'') \<and>
   (\<exists>pre q q' post.
      slice (js ''{\"plugin\": ['oh-my-opencode-slim@1.0.0']}'') 12 39 =
        pre @ (q # js ''oh-my-opencode-slim@1.0.0'' @ [q']) @ post \<and>
      is_quote q \<and> is_quote q' \<and>
      readFileSync
        (snd (updatePinnedVersion example_constants
           (one_file (js ''/p/opencode.json'') (js ''{\"plugin\": ['oh-my-opencode-slim@1.0.0']}''))
           (js ''/p/opencode.json'') (js ''oh-my-opencode-slim@1.0.0'') (js ''1.1.0'')))
        (js ''/p/opencode.json'') =
        Some (take 12 (js ''{\"plugin\": ['oh-my-opencode-slim@1.0.0']}'') @ pre @
              ([dquote] @ (C_PACKAGE_NAME example_constants @ [at_sign] @ js ''1.1.0'') @ [dquote]) @
              post @ drop 39 (js ''{\"plugin\": ['oh-my-opencode-slim@1.0.0']}'')))"
proof -
  let ?c = "js ''{\"plugin\": ['oh-my-opencode-slim@1.0.0']}''"
  let ?old = "js ''oh-my-opencode-slim@1.0.0''"
  have w: "js ''/p/opencode.json'' \<notin> denied (one_file (js ''/p/opencode.json'') ?c)"
    by (simp add: one_file_def file_of_bytes_def)
  have loc: "locate ?c = Some (12, 39)"
    by (simp add: locate_def pattern_eval)
  have "search (entryPattern ?old) (slice ?c 12 39) = Some (0, [squote] @ ?old @ [squote])"
    by (simp add: pattern_eval)
  then have q: "quoted_in ?old (slice ?c 12 39)"
    unfolding quoted_in_iff by simp
  have nd: "dollar \<notin> set (C_PACKAGE_NAME example_constants @ [at_sign] @ js ''1.1.0'')"
    by (simp add: example_constants_def js_def)
  have t: "ascii_text ?c"
    by (simp add: ascii_text_def js_def)
  note rd = one_file_read [OF t, of "js ''/p/opencode.json''"]
  let ?fs = "one_file (js ''/p/opencode.json'') ?c"
  let ?new = "[dquote] @ (C_PACKAGE_NAME example_constants @ [at_sign] @ js ''1.1.0'') @ [dquote]"
  from updatePinnedVersion_replaces_first_with_double_quotes [OF rd w loc q nd]
  obtain pre q1 q2 post u where
    parts: "slice ?c 12 39 = pre @ (q1 # ?old @ [q2]) @ post"
    and quotes: "is_quote q1" "is_quote q2"
    and u: "u = take 12 ?c @ pre @ ?new @ post @ drop 39 ?c"
    and readback: "utf8_decode (utf8_encode u) = u \<longrightarrow>
        readFileSync (snd (updatePinnedVersion example_constants ?fs (js ''/p/opencode.json'')
          ?old (js ''1.1.0''))) (js ''/p/opencode.json'') = Some u"
    by blast
  have "ascii_text (slice ?c 12 39)"
    by (simp add: ascii_text_def js_def slice_def)
  then have "ascii_text pre" "ascii_text post"
    unfolding parts by (simp_all add: ascii_text_def)
  moreover have "ascii_text (take 12 ?c)" "ascii_text ?new" "ascii_text (drop 39 ?c)"
    by (simp_all add: ascii_text_def js_def example_constants_def)
  ultimately have "ascii_text u"
    unfolding u by (simp add: ascii_text_def)
  then have "utf8_decode (utf8_encode u) = u"
    by (simp add: utf8_encode_ascii utf8_decode_ascii)
  with readback have "readFileSync (snd (updatePinnedVersion example_constants ?fs
      (js ''/p/opencode.json'') ?old (js ''1.1.0''))) (js ''/p/opencode.json'') =
      Some (take 12 ?c @ pre @ ?new @ post @ drop 39 ?c)"
    unfolding u by simp
  with parts quotes have "\<exists>pre q q' post.
      slice ?c 12 39 = pre @ (q # ?old @ [q']) @ post \<and> is_quote q \<and> is_quote q' \<and>
      readFileSync (snd (updatePinnedVersion example_constants ?fs
        (js ''/p/opencode.json'') ?old (js ''1.1.0''))) (js ''/p/opencode.json'') =
        Some (take 12 ?c @ pre @ ?new @ post @ drop 39 ?c)"
    by blast
  with rd w loc q nd show ?thesis
    by (intro conjI)
qed

section \<open>updatePinnedVersion: the new entry equals the old one\<close>

text \<open>
  Claim C5, as stated, at an entry between single quotes: the new entry equals the old
  one, and yet the file is written, with other quotes, and the result is \<^verbatim>\<open>true\<close>.
\<close>

theorem updatePinnedVersion_same_entry_counterexample:
  "C_PACKAGE_NAME example_constants @ [at_sign] @ js ''1.0.0'' = js ''oh-my-opencode-slim@1.0.0'' \<and>
   updatePinnedVersion example_constants
     (one_file (js ''/p/opencode.json'') (js ''{\"plugin\": ['oh-my-opencode-slim@1.0.0']}''))
     (js ''/p/opencode.json'') (js ''oh-my-opencode-slim@1.0.0'') (js ''1.0.0'') =
     (True, one_file (js ''/p/opencode.json'')
        (js ''{\"plugin\": [\"oh-my-opencode-slim@1.0.0\"]}'')) \<and>
   js ''{\"plugin\": [\"oh-my-opencode-slim@1.0.0\"]}'' \<noteq>
     js ''{\"plugin\": ['oh-my-opencode-slim@1.0.0']}''"
proof -
  let ?c = "js ''{\"plugin\": ['oh-my-opencode-slim@1.0.0']}''"
  let ?old = "js ''oh-my-opencode-slim@1.0.0''"
  have loc: "locate ?c = Some (12, 39)"
    by (simp add: locate_def pattern_eval)
  have hit: "search (entryPattern ?old) (slice ?c 12 39) = Some (0, [squote] @ ?old @ [squote])"
    by (simp add: pattern_eval)
  have nd: "dollar \<notin> set (C_PACKAGE_NAME example_constants @ [at_sign] @ js ''1.0.0'')"
    by (simp add: example_constants_def js_def)
  have pc: "patch_content example_constants ?c ?old (js ''1.0.0'') =
          Updated (js ''{\"plugin\": [\"oh-my-opencode-slim@1.0.0\"]}'')"
    unfolding patch_content_found [OF loc hit nd]
    by (simp add: js_def slice_def example_constants_def)
  have "ascii_text ?c"
    by (simp add: ascii_text_def js_def)
  note updatePinnedVersion_UpdatedI [OF one_file_read [OF this] pc one_file_write]
  moreover have "C_PACKAGE_NAME example_constants @ [at_sign] @ js ''1.0.0'' = ?old"
    "js ''{\"plugin\": [\"oh-my-opencode-slim@1.0.0\"]}'' \<noteq> ?c"
    by (simp_all add: js_def example_constants_def)
  ultimately show ?thesis
    by (intro conjI)
qed

text \<open>
  Claim C5, amended.  When the new entry equals the old one and has no dollar sign, and
  the first quoted occurrence of the entry in the located range, if there is one, is
  between double quotes, the call returns \<^verbatim>\<open>false\<close> and leaves the file system as it was:
  nothing is written.
\<close>

theorem updatePinnedVersion_same_entry_no_write:
  assumes "readFileSync fs file = Some content"
    and "oldEntry = C_PACKAGE_NAME k @ [at_sign] @ newVersion"
    and "dollar \<notin> set oldEntry"
    and "\<forall>startIdx endIdx m. locate content = Some (startIdx, endIdx) \<and>
           first_quoted oldEntry (slice content startIdx endIdx) = Some m \<longrightarrow>
           m = [dquote] @ oldEntry @ [dquote]"
  shows "updatePinnedVersion k fs file oldEntry newVersion = (False, fs)"
proof (cases "locate content")
  case None
  then have "patch_content k content oldEntry newVersion = NoPluginArray"
    by (simp add: patch_content_def)
  then show ?thesis using assms(1) by (simp add: updatePinnedVersion_def)
next
  case (Some se)
  then obtain startIdx endIdx where loc: "locate content = Some (startIdx, endIdx)"
    by (cases se) simp
  let ?s = "slice content startIdx endIdx"
  show ?thesis
  proof (cases "search (entryPattern oldEntry) ?s")
    case None
    then have "patch_content k content oldEntry newVersion = EntryNotFound"
      using loc by (simp add: patch_content_def Let_def)
    then show ?thesis using assms(1) by (simp add: updatePinnedVersion_def)
  next
    case (Some im)
    then obtain i m where hit: "search (entryPattern oldEntry) ?s = Some (i, m)"
      by (cases im) simp
    then have "first_quoted oldEntry ?s = Some m" by (simp add: first_quoted_def)
    then have m: "m = [dquote] @ oldEntry @ [dquote]" using assms(4) loc by blast
    from search_entry_SomeD [OF hit] have s: "?s = take i ?s @ m @ drop (i + length m) ?s"
      by blast
    have "take startIdx content @ ?s @ drop endIdx content = content"
      using slice_decomp [OF locate_bounds(1) [OF loc]] by simp
    then have "take startIdx content @ take i ?s @ m @ drop (i + length m) ?s @
        drop endIdx content = content"
      using s by (metis append.assoc)
    moreover have "dollar \<notin> set (C_PACKAGE_NAME k @ [at_sign] @ newVersion)"
      using assms(2,3) by simp
    ultimately have "patch_content k content oldEntry newVersion = NoChanges"
      using patch_content_found [OF loc hit] m assms(2) by (simp add: Let_def)
    then show ?thesis using assms(1) by (simp add: updatePinnedVersion_def)
  qed
qed

text \<open>Claim C5, amended, at the entry between double quotes.\<close>

theorem updatePinnedVersion_same_entry_no_write_witness:
  "readFileSync
     (one_file (js ''/p/opencode.json'') (js ''{\"plugin\": [\"oh-my-opencode-slim@1.0.0\"]}''))
     (js ''/p/opencode.json'') = Some (js ''{\"plugin\": [\"oh-my-opencode-slim@1.0.0\"]}'') \<and>
   js ''oh-my-opencode-slim@1.0.0'' = C_PACKAGE_NAME example_constants @ [at_sign] @ js ''1.0.0'' \<and>
   dollar \<notin> set (js ''oh-my-opencode-slim@1.0.0'') \<and>
   locate (js ''{\"plugin\": [\"oh-my-opencode-slim@1.0.0\"]}'') = Some (12, 39) \<and>
   first_quoted (js ''oh-my-opencode-slim@1.0.0'')
     (slice (js ''{\"plugin\": [\"oh-my-opencode-slim@1.0.0\"]}'') 12 39) =
     Some ([dquote] @ js ''oh-my-opencode-slim@1.0.0'' @ [dquote]) \<and>
   updatePinnedVersion example_constants
     (one_file (js ''/p/opencode.json'') (js ''{\"plugin\": [\"oh-my-opencode-slim@1.0.0\"]}''))
     (js ''/p/opencode.json'') (js ''oh-my-opencode-slim@1.0.0'') (js ''1.0.0'') =
     (False, one_file (js ''/p/opencode.json'')
        (js ''{\"plugin\": [\"oh-my-opencode-slim@1.0.0\"]}''))"
proof -
  let ?c = "js ''{\"plugin\": [\"oh-my-opencode-slim@1.0.0\"]}''"
  let ?old = "js ''oh-my-opencode-slim@1.0.0''"
  have same: "?old = C_PACKAGE_NAME example_constants @ [at_sign] @ js ''1.0.0''"
    by (simp add: example_constants_def js_def)
  have nd: "dollar \<notin> set ?old"
    by (simp add: js_def)
  have loc: "locate ?c = Some (12, 39)"
    by (simp add: locate_def pattern_eval)
  have fq: "first_quoted ?old (slice ?c 12 39) = Some ([dquote] @ ?old @ [dquote])"
    by (simp add: first_quoted_def pattern_eval)
  have "\<forall>startIdx endIdx m. locate ?c = Some (startIdx, endIdx) \<and>
           first_quoted ?old (slice ?c startIdx endIdx) = Some m \<longrightarrow>
           m = [dquote] @ ?old @ [dquote]"
    using loc fq by simp
  moreover have "ascii_text ?c"
    by (simp add: ascii_text_def js_def)
  note rd = one_file_read [OF this, of "js ''/p/opencode.json''"]
  ultimately have "updatePinnedVersion example_constants (one_file (js ''/p/opencode.json'') ?c)
      (js ''/p/opencode.json'') ?old (js ''1.0.0'') =
      (False, one_file (js ''/p/opencode.json'') ?c)"
    using updatePinnedVersion_same_entry_no_write [OF rd same nd] by blast
  with rd same nd loc fq show ?thesis
    by (intro conjI)
qed

section \<open>extractChannel\<close>













section \<open>Reading the files of the examples\<close>

lemma existsSync_one_file: "existsSync (one_file p c) q \<longleftrightarrow> q = p"
  by (simp add: existsSync_def one_file_def file_of_bytes_def)

lemma existsSync_and_file: "existsSync (and_file fs p c) q \<longleftrightarrow> q = p \<or> existsSync fs q"
  by (simp add: existsSync_def and_file_def)

lemma readFileSync_one_file:
  "ascii_text c \<Longrightarrow> readFileSync (one_file p c) q = (if q = p then Some c else None)"
  by (simp add: readFileSync_def one_file_def file_of_bytes_def utf8_encode_ascii
      utf8_decode_ascii)

lemma readFileSync_and_file:
  "ascii_text c \<Longrightarrow>
     readFileSync (and_file fs p c) q = (if q = p then Some c else readFileSync fs q)"
  by (simp add: readFileSync_def and_file_def utf8_encode_ascii utf8_decode_ascii)

lemma documents_ascii:
  "ascii_text project_document" "ascii_text keep_document" "ascii_text user_document"
  "ascii_text number_document"
  by (simp_all add: ascii_text_def project_document_def keep_document_def user_document_def
      number_document_def js_def)

lemma project_document_cut:
  "stripJsonComments project_document =
     js ''{\"dir\": \"C:'' @ [bslash, bslash] @
     js ''\", \"plugin\": [\"oh-my-opencode-slim@1.0.0\"], \"url\": \"http:''"
  by (simp add: project_document_def strip_eval)

lemma keep_document_cut:
  "stripJsonComments keep_document =
     js ''{\"dir\": \"C:'' @ [bslash, bslash] @ js ''\", \"plugin\": [\"keep\"], \"url\": \"http:''"
  by (simp add: keep_document_def strip_eval)

lemma user_document_kept: "stripJsonComments user_document = user_document"
  by (simp add: user_document_def strip_eval)

lemma number_document_kept: "stripJsonComments number_document = number_document"
  by (simp add: number_document_def strip_eval)

lemma cut_documents_rejected:
  "example_parse (stripJsonComments project_document) = None"
  "example_parse (stripJsonComments keep_document) = None"
  unfolding project_document_cut keep_document_cut
  by (simp_all add: example_parse_def project_document_def keep_document_def user_document_def
      number_document_def js_def)

lemma example_parse_documents:
  "example_parse project_document =
     Some (JObj [(js ''dir'', JStr (js ''C:'' @ [bslash])),
                 (js ''plugin'', JArr [JStr (js ''oh-my-opencode-slim@1.0.0'')]),
                 (js ''url'', JStr (js ''http://x''))])"
  "example_parse keep_document =
     Some (JObj [(js ''dir'', JStr (js ''C:'' @ [bslash])),
                 (js ''plugin'', JArr [JStr (js ''keep'')]),
                 (js ''url'', JStr (js ''http://x''))])"
  "example_parse user_document =
     Some (JObj [(js ''plugin'', JArr [JStr (js ''oh-my-opencode-slim@2.0.0'')])])"
  "example_parse number_document =
     Some (JObj [(js ''plugin'', JArr [JNum 1, JStr (js ''oh-my-opencode-slim@1.0.0'')])])"
  by (simp_all add: example_parse_def project_document_def keep_document_def user_document_def
      number_document_def js_def)

section \<open>findPluginEntry\<close>

text \<open>
  The order of the candidates: the project's two files, then the user's two, and on the
  platform \<^verbatim>\<open>win32\<close> the two of the alternate directory, each unless it is in the list.
\<close>

lemma getConfigPaths_order:
  "getConfigPaths k env directory =
     [path_join env [directory, js ''.opencode'', js ''opencode.json''],
      path_join env [directory, js ''.opencode'', js ''opencode.jsonc''],
      C_USER_OPENCODE_CONFIG k, C_USER_OPENCODE_CONFIG_JSONC k] @
     (if platform env = js ''win32'' then drop 4 (getConfigPaths k env directory) else [])"
  by (simp add: getConfigPaths_def Let_def push_unless_included_def)

text \<open>
  What holds of the entries of one file: strings that are no entry of the package are
  passed over, and the first entry of the package gives the result, with its pin state.
\<close>

lemma scan_entries_pin_state:
  assumes "\<forall>x\<in>set xs. x \<noteq> C_PACKAGE_NAME k \<and> \<not> prefix (C_PACKAGE_NAME k @ [at_sign]) x"
  shows "scan_entries k p (map JStr xs @ JStr (C_PACKAGE_NAME k) # ys) =
           Returns (Some \<lparr>entry = C_PACKAGE_NAME k, isPinned = False, pinnedVersion = None,
                           configPath = p\<rparr>)"
    and "scan_entries k p (map JStr xs @ JStr (C_PACKAGE_NAME k @ [at_sign] @ js ''latest'') # ys) =
           Returns (Some \<lparr>entry = C_PACKAGE_NAME k @ [at_sign] @ js ''latest'', isPinned = False,
                           pinnedVersion = None, configPath = p\<rparr>)"
    and "X \<noteq> js ''latest'' \<Longrightarrow>
         scan_entries k p (map JStr xs @ JStr (C_PACKAGE_NAME k @ [at_sign] @ X) # ys) =
           Returns (Some \<lparr>entry = C_PACKAGE_NAME k @ [at_sign] @ X, isPinned = True,
                           pinnedVersion = Some X, configPath = p\<rparr>)"
  using assms by (induction xs) (simp_all add: Let_def)

text \<open>
  Claim C7.  The candidates are in the order of lines 44 to 62, on \<^verbatim>\<open>win32\<close> with the two
  files of the alternate directory behind the four.  The project's file is the first
  candidate; it is JSON, and its plugin array holds the package, pinned to 1.0.0.  But it
  also holds, before the array, a string that ends with an escaped backslash and, behind
  it, a URL, so \<open>stripJsonComments\<close> cuts the text in the URL (the defect shown for claim
  C1), what is left does not parse, and the file is passed over: the result is the entry
  of the user's file, a later candidate, pinned to 2.0.0.  A first candidate whose plugin
  array holds a number before the entry of the package is passed over in the same way,
  because the call of \<^verbatim>\<open>startsWith\<close> on the number throws.
\<close>

theorem findPluginEntry_passes_over_first_candidate:
  "getConfigPaths example_constants example_environment (js ''/proj'') =
     [js ''/proj/.opencode/opencode.json'', js ''/proj/.opencode/opencode.jsonc'',
      js ''/home/u/.config/opencode/opencode.json'',
      js ''/home/u/.config/opencode/opencode.jsonc''] \<and>
   getConfigPaths example_constants win32_environment (js ''/proj'') =
     [js ''/proj/.opencode/opencode.json'', js ''/proj/.opencode/opencode.jsonc'',
      js ''/home/u/.config/opencode/opencode.json'',
      js ''/home/u/.config/opencode/opencode.jsonc'',
      js ''/home/u/AppData/Roaming/opencode/opencode.json'',
      js ''/home/u/AppData/Roaming/opencode/opencode.jsonc''] \<and>
   example_parse project_document =
     Some (JObj [(js ''dir'', JStr (js ''C:'' @ [bslash])),
                 (js ''plugin'', JArr [JStr (js ''oh-my-opencode-slim@1.0.0'')]),
                 (js ''url'', JStr (js ''http://x''))]) \<and>
   stripJsonComments project_document =
     js ''{\"dir\": \"C:'' @ [bslash, bslash] @
     js ''\", \"plugin\": [\"oh-my-opencode-slim@1.0.0\"], \"url\": \"http:'' \<and>
   example_parse (stripJsonComments project_document) = None \<and>
   findPluginEntry example_constants example_environment example_parse
     (and_file (one_file (js ''/proj/.opencode/opencode.json'') project_document)
        (js ''/home/u/.config/opencode/opencode.json'') user_document)
     (js ''/proj'') =
     Some \<lparr>entry = js ''oh-my-opencode-slim@2.0.0'', isPinned = True,
            pinnedVersion = Some (js ''2.0.0''),
            configPath = js ''/home/u/.config/opencode/opencode.json''\<rparr> \<and>
   example_parse (stripJsonComments number_document) =
     Some (JObj [(js ''plugin'', JArr [JNum 1, JStr (js ''oh-my-opencode-slim@1.0.0'')])]) \<and>
   findPluginEntry example_constants example_environment example_parse
     (and_file (one_file (js ''/proj/.opencode/opencode.json'') number_document)
        (js ''/home/u/.config/opencode/opencode.json'') user_document)
     (js ''/proj'') =
     Some \<lparr>entry = js ''oh-my-opencode-slim@2.0.0'', isPinned = True,
            pinnedVersion = Some (js ''2.0.0''),
            configPath = js ''/home/u/.config/opencode/opencode.json''\<rparr>"
proof -
  let ?project = "js ''/proj/.opencode/opencode.json''"
  let ?user = "js ''/home/u/.config/opencode/opencode.json''"
  let ?info = "\<lparr>entry = js ''oh-my-opencode-slim@2.0.0'', isPinned = True,
      pinnedVersion = Some (js ''2.0.0''), configPath = ?user\<rparr>"
  have paths: "getConfigPaths example_constants example_environment (js ''/proj'') =
     [?project, js ''/proj/.opencode/opencode.jsonc'', ?user,
      js ''/home/u/.config/opencode/opencode.jsonc'']"
    by (simp add: getConfigPaths_def example_constants_def example_environment_def js_def)
  have win: "getConfigPaths example_constants win32_environment (js ''/proj'') =
     [?project, js ''/proj/.opencode/opencode.jsonc'', ?user,
      js ''/home/u/.config/opencode/opencode.jsonc'',
      js ''/home/u/AppData/Roaming/opencode/opencode.json'',
      js ''/home/u/AppData/Roaming/opencode/opencode.jsonc'']"
    by (simp add: getConfigPaths_def example_constants_def win32_environment_def
        push_unless_included_def js_def)
  have thrown: "entry_in_text example_constants example_parse ?project project_document = Throws"
    by (simp add: entry_in_text_def cut_documents_rejected)
  have number: "entry_in_text example_constants example_parse ?project number_document = Throws"
    by (simp add: entry_in_text_def number_document_kept example_parse_documents
        plugin_property_def or_empty_array_def iterate_def example_constants_def js_def)
  have found: "entry_in_text example_constants example_parse ?user user_document =
      Returns (Some ?info)"
    by (simp add: entry_in_text_def user_document_kept example_parse_documents
        plugin_property_def or_empty_array_def iterate_def example_constants_def js_def Let_def)
  have different: "?project \<noteq> ?user" "js ''/proj/.opencode/opencode.jsonc'' \<noteq> ?project"
    "js ''/proj/.opencode/opencode.jsonc'' \<noteq> ?user"
    by (simp_all add: js_def)
  have run: "find_in_paths example_constants example_parse
      (and_file (one_file ?project d) ?user user_document)
      [?project, js ''/proj/.opencode/opencode.jsonc'', ?user,
       js ''/home/u/.config/opencode/opencode.jsonc''] = Some ?info"
    if "ascii_text d" "entry_in_text example_constants example_parse ?project d = Throws" for d
    using that different found
    by (simp add: existsSync_and_file existsSync_one_file readFileSync_and_file
        readFileSync_one_file documents_ascii)
  have first: "findPluginEntry example_constants example_environment example_parse
      (and_file (one_file ?project project_document) ?user user_document) (js ''/proj'') =
      Some ?info"
    unfolding findPluginEntry_def paths by (rule run [OF documents_ascii(1) thrown])
  have second: "findPluginEntry example_constants example_environment example_parse
      (and_file (one_file ?project number_document) ?user user_document) (js ''/proj'') =
      Some ?info"
    unfolding findPluginEntry_def paths by (rule run [OF documents_ascii(4) number])
  have kept: "example_parse (stripJsonComments number_document) =
      Some (JObj [(js ''plugin'', JArr [JNum 1, JStr (js ''oh-my-opencode-slim@1.0.0'')])])"
    unfolding number_document_kept by (rule example_parse_documents(4))
  show ?thesis
    using paths win example_parse_documents(1) project_document_cut cut_documents_rejected(1)
      first kept second
    by (intro conjI)
qed

section \<open>getLatestVersion\<close>

text \<open>
  What holds: a response that is not ok, a body that does not parse or is \<^verbatim>\<open>null\<close>, a
  network error and the abort sent by the timer all give \<^verbatim>\<open>null\<close>, and nothing is thrown
  to the caller.  With dist-tags that are an object, a channel that is one of its keys
  gives the value under that key, and a channel that is neither a key nor the name of a
  member of \<^verbatim>\<open>Object.prototype\<close> gives the value under \<^verbatim>\<open>latest\<close>.
\<close>

lemma getLatestVersion_no_version:
  "getLatestVersion builtins (Response False body) c = None"
  "getLatestVersion builtins (Response True None) c = None"
  "getLatestVersion builtins (Response True (Some JNull)) c = None"
  "getLatestVersion builtins (Rejected NetworkError) c = None"
  "getLatestVersion builtins (Rejected Aborted) c = None"
  by (simp_all add: getLatestVersion_def get_property_def)

lemma getLatestVersion_own_channel:
  assumes "map_of tags channel = Some v" "v \<noteq> JNull"
  shows "getLatestVersion builtins (Response True (Some (JObj tags))) (Some channel) =
           Some (Data v)"
  using assms
  by (simp add: getLatestVersion_def get_property_def own_property_def nullish_property_def)

lemma getLatestVersion_falls_back:
  assumes "map_of tags channel = None" "channel \<notin> set object_prototype"
    and "map_of tags (js ''latest'') = Some v" "v \<noteq> JNull"
  shows "getLatestVersion builtins (Response True (Some (JObj tags))) (Some channel) =
           Some (Data v)"
  using assms
  by (simp add: getLatestVersion_def get_property_def own_property_def nullish_property_def
      inherited_def)

text \<open>
  Claim C8.  A plugin entry with a tag that does not begin with a digit has that tag for
  its channel, so the channel can be \<^verbatim>\<open>constructor\<close>.  The dist-tags have no such key, but
  \<^verbatim>\<open>data[channel]\<close> finds the member of that name in \<^verbatim>\<open>Object.prototype\<close>, which is a
  function and not \<^verbatim>\<open>undefined\<close>: there is no fall back to \<^verbatim>\<open>latest\<close>, and the result is
  that function where it should be the version 2.0.0.  The same holds of \<^verbatim>\<open>toString\<close>
  and of the other members.
\<close>

theorem getLatestVersion_prototype_member:
  "extractChannel (Some (js ''constructor'')) = js ''constructor'' \<and>
   own_property example_dist_tags (js ''constructor'') = None \<and>
   own_property example_dist_tags (js ''latest'') = Some (JStr (js ''2.0.0'')) \<and>
   getLatestVersion builtins (Response True (Some example_dist_tags)) (Some (js ''constructor'')) =
     Some (Builtin (js ''constructor'')) \<and>
   getLatestVersion builtins (Response True (Some example_dist_tags)) (Some (js ''toString'')) =
     Some (Builtin (js ''toString'')) \<and>
   getLatestVersion builtins (Response True (Some example_dist_tags)) (Some (js ''alpha'')) =
     Some (Data (JStr (js ''2.0.0'')))"
proof -
  have channel: "extractChannel (Some (js ''constructor'')) = js ''constructor''"
    by (simp add: extractChannel_def truthy_def isDistTag_def digit_def js_def)
  have own: "own_property example_dist_tags (js ''constructor'') = None"
    "own_property example_dist_tags (js ''toString'') = None"
    "own_property example_dist_tags (js ''alpha'') = None"
    "own_property example_dist_tags (js ''latest'') = Some (JStr (js ''2.0.0''))"
    by (simp_all add: own_property_def example_dist_tags_def js_def)
  have member: "inherited builtins example_dist_tags (js ''constructor'')"
    "inherited builtins example_dist_tags (js ''toString'')"
    "\<not> inherited builtins example_dist_tags (js ''alpha'')"
    by (simp_all add: inherited_def object_prototype_def example_dist_tags_def js_def)
  have object: "example_dist_tags \<noteq> JNull"
    by (simp add: example_dist_tags_def)
  have get: "get_property builtins example_dist_tags name =
      Returns (case own_property example_dist_tags name of
                 Some x \<Rightarrow> Some (Data x)
               | None \<Rightarrow>
                   if inherited builtins example_dist_tags name then Some (Builtin name)
                   else None)" for name
    by (simp add: get_property_def example_dist_tags_def)
  have "getLatestVersion builtins (Response True (Some example_dist_tags))
      (Some (js ''constructor'')) = Some (Builtin (js ''constructor''))"
    "getLatestVersion builtins (Response True (Some example_dist_tags))
      (Some (js ''toString'')) = Some (Builtin (js ''toString''))"
    "getLatestVersion builtins (Response True (Some example_dist_tags))
      (Some (js ''alpha'')) = Some (Data (JStr (js ''2.0.0'')))"
    by (simp_all add: getLatestVersion_def get own member nullish_property_def)
  with channel own(1,4) show ?thesis
    by (intro conjI)
qed

section \<open>addPluginToOpenCodeConfig\<close>

text \<open>
  Claim C10.  The user's configuration is JSON and has the plugin \<^verbatim>\<open>keep\<close>.  It also holds,
  before the array, a string that ends with an escaped backslash and, behind it, a URL,
  so \<open>stripJsonComments\<close> cuts the text in the URL (the defect shown for claim C1), what
  is left does not parse, and \<open>parseConfig\<close> returns \<^verbatim>\<open>null\<close>.  The call then starts from
  the empty configuration, reports success, and leaves the file with the package as its
  only plugin: the entry \<^verbatim>\<open>keep\<close> and the other keys are lost.  And for a file that holds
  the empty array, the call reports success and writes the empty array back: what is
  written has no plugin array at all.
\<close>

theorem addPluginToOpenCodeConfig_loses_entries:
  "example_parse keep_document =
     Some (JObj [(js ''dir'', JStr (js ''C:'' @ [bslash])),
                 (js ''plugin'', JArr [JStr (js ''keep'')]),
                 (js ''url'', JStr (js ''http://x''))]) \<and>
   stripJsonComments keep_document =
     js ''{\"dir\": \"C:'' @ [bslash, bslash] @ js ''\", \"plugin\": [\"keep\"], \"url\": \"http:'' \<and>
   example_parse (stripJsonComments keep_document) = None \<and>
   fst (addPluginToOpenCodeConfig example_environment example_parse example_stringify
          (one_file (js ''/home/u/.config/opencode/opencode.json'') keep_document)) =
     \<lparr>success = True, resultPath = js ''/home/u/.config/opencode/opencode.json'',
      error = None\<rparr> \<and>
   readFileSync
     (snd (addPluginToOpenCodeConfig example_environment example_parse example_stringify
             (one_file (js ''/home/u/.config/opencode/opencode.json'') keep_document)))
     (js ''/home/u/.config/opencode/opencode.json'') =
     Some (js ''{'' @ [10] @ js ''  \"plugin\": ['' @ [10] @
           js ''    \"oh-my-opencode-slim\"'' @ [10] @ js ''  ]'' @ [10] @ js ''}'' @ [10]) \<and>
   fst (addPluginToOpenCodeConfig example_environment example_parse example_stringify
          (one_file (js ''/home/u/.config/opencode/opencode.json'') (js ''[]''))) =
     \<lparr>success = True, resultPath = js ''/home/u/.config/opencode/opencode.json'',
      error = None\<rparr> \<and>
   readFileSync
     (snd (addPluginToOpenCodeConfig example_environment example_parse example_stringify
             (one_file (js ''/home/u/.config/opencode/opencode.json'') (js ''[]''))))
     (js ''/home/u/.config/opencode/opencode.json'') = Some (js ''[]'' @ [10])"
proof -
  let ?p = "js ''/home/u/.config/opencode/opencode.json''"
  let ?dir = "js ''/home/u/.config/opencode''"
  let ?printed = "js ''{'' @ [10] @ js ''  \"plugin\": ['' @ [10] @
           js ''    \"oh-my-opencode-slim\"'' @ [10] @ js ''  ]'' @ [10] @ js ''}''"
  have dir: "getConfigDir example_environment = ?dir"
    by (simp add: getConfigDir_def example_environment_def truthy_def js_def)
  have json: "getConfigJson example_environment = ?p"
    by (simp add: getConfigJson_def dir) (simp add: example_environment_def js_def)
  have jsonc: "take (length ?p - 5) ?p @ js ''.jsonc'' = js ''/home/u/.config/opencode/opencode.jsonc''"
    "suffix (js ''.json'') ?p"
    by (simp_all add: js_def suffix_def)
  have different: "?dir \<noteq> ?p" "js ''/home/u/.config/opencode/opencode.jsonc'' \<noteq> ?p"
    "js ''/home/u/.config/opencode/opencode.jsonc'' \<noteq> ?dir"
    by (simp_all add: js_def)
  define made where "made d = (one_file ?p d)\<lparr>nodes := (nodes (one_file ?p d))(?dir \<mapsto> Directory)\<rparr>"
    for d
  have ensure: "ensureConfigDir example_environment (one_file ?p d) = Some (made d)" for d
    using different
    by (simp add: ensureConfigDir_def dir existsSync_def mkdirSync_def made_def one_file_def
        file_of_bytes_def)
  have exists: "existsSync (made d) q \<longleftrightarrow> q = ?p \<or> q = ?dir" for d q
    by (auto simp: made_def existsSync_def one_file_def file_of_bytes_def)
  have path: "getExistingConfigPath example_environment (made d) = ?p" for d
    by (simp add: getExistingConfigPath_def json exists)
  have read: "readFileSync (made d) ?p = Some d" if "ascii_text d" for d
    using that different
    by (simp add: made_def readFileSync_def one_file_def file_of_bytes_def utf8_encode_ascii
        utf8_decode_ascii)
  have bytes: "nodes (made d) ?p \<noteq> Some (File [])" if "ascii_text d" "d \<noteq> []" for d
    using that different
    by (simp add: made_def one_file_def file_of_bytes_def utf8_encode_ascii)
  have parsed: "parseConfigFile example_parse (made d) ?p =
      (case example_parse (stripJsonComments d) of None \<Rightarrow> JNull | Some config \<Rightarrow> config)"
    if "ascii_text d" "d \<noteq> []" "trim d \<noteq> []" for d
    using that bytes [OF that(1,2)] by (simp add: parseConfigFile_def exists read)
  have missing: "parseConfigFile example_parse (made d)
      (js ''/home/u/.config/opencode/opencode.jsonc'') = JNull" for d
    using different by (simp add: parseConfigFile_def exists)
  have written: "writeFileSync (made d) ?p t =
      Some ((made d)\<lparr>nodes := (nodes (made d))(?p \<mapsto> File (utf8_encode t))\<rparr>)" for d t
    using different
    by (simp add: writeFileSync_def made_def one_file_def file_of_bytes_def)
  have result: "fst (addPluginToOpenCodeConfig example_environment example_parse
        example_stringify (one_file ?p d)) =
        \<lparr>success = True, resultPath = ?p, error = None\<rparr> \<and>
      readFileSync (snd (addPluginToOpenCodeConfig example_environment example_parse
        example_stringify (one_file ?p d))) ?p = Some (example_stringify config @ [10])"
    if "merged_config example_parse (made d) ?p = Returns config"
      "ascii_text (example_stringify config)" for d config
  proof -
    have "ascii_text (example_stringify config @ [10])"
      using that(2) by (simp add: ascii_text_def)
    then show ?thesis
      using that(1)
      by (simp add: addPluginToOpenCodeConfig_def ensure path writeConfig_def written
          readFileSync_def utf8_encode_ascii utf8_decode_ascii Let_def)
  qed
  have keep: "ascii_text keep_document" "keep_document \<noteq> []" "trim keep_document \<noteq> []"
    by (simp_all add: ascii_text_def keep_document_def trim_def white_space_def js_def)
  have empty: "ascii_text (js ''[]'')" "js ''[]'' \<noteq> []" "trim (js ''[]'') \<noteq> []"
    "stripJsonComments (js ''[]'') = js ''[]''" "example_parse (js ''[]'') = Some (JArr [])"
    by (simp_all add: ascii_text_def trim_def white_space_def example_parse_def
        project_document_def keep_document_def user_document_def number_document_def strip_eval)
  have m1: "merged_config example_parse (made keep_document) ?p =
      Returns (JObj [(js ''plugin'', JArr [JStr (js ''oh-my-opencode-slim'')])])"
    by (simp add: merged_config_def parseConfig_def parsed [OF keep] cut_documents_rejected
        truthy_value_def jsonc missing plugin_property_def or_empty_array_def filter_plugins_def
        set_plugin_def PACKAGE_NAME_def)
  have m2: "merged_config example_parse (made (js ''[]'')) ?p = Returns (JArr [])"
    by (simp add: merged_config_def parseConfig_def parsed [OF empty(1-3)] empty(4,5)
        truthy_value_def plugin_property_def or_empty_array_def filter_plugins_def
        set_plugin_def)
  have p1: "example_stringify (JObj [(js ''plugin'', JArr [JStr (js ''oh-my-opencode-slim'')])]) =
      ?printed"
    and p2: "example_stringify (JArr []) = js ''[]''"
    by (simp_all add: example_stringify_def)
  have a1: "ascii_text (example_stringify
      (JObj [(js ''plugin'', JArr [JStr (js ''oh-my-opencode-slim'')])]))"
    and a2: "ascii_text (example_stringify (JArr []))"
    unfolding p1 p2 by (simp_all add: ascii_text_def js_def)
  from result [OF m1 a1] result [OF m2 a2]
  have "fst (addPluginToOpenCodeConfig example_environment example_parse example_stringify
          (one_file ?p keep_document)) = \<lparr>success = True, resultPath = ?p, error = None\<rparr>"
    "readFileSync (snd (addPluginToOpenCodeConfig example_environment example_parse
          example_stringify (one_file ?p keep_document))) ?p =
       Some (js ''{'' @ [10] @ js ''  \"plugin\": ['' @ [10] @
             js ''    \"oh-my-opencode-slim\"'' @ [10] @ js ''  ]'' @ [10] @ js ''}'' @ [10])"
    "fst (addPluginToOpenCodeConfig example_environment example_parse example_stringify
          (one_file ?p (js ''[]''))) = \<lparr>success = True, resultPath = ?p, error = None\<rparr>"
    "readFileSync (snd (addPluginToOpenCodeConfig example_environment example_parse
          example_stringify (one_file ?p (js ''[]'')))) ?p = Some (js ''[]'' @ [10])"
    unfolding p1 p2 by simp_all
  with example_parse_documents(2) keep_document_cut cut_documents_rejected(2) show ?thesis
    by (intro conjI)
qed

end
